theory Spec2Isabelle
  imports Complex_Main "HOL-Library.AList" "HOL-Library.Sublist"
begin

section \<open>Python values\<close>

text \<open>
  The adapter is dynamically typed Python that moves JSON-like values between the caller,
  the embedder and the Typesense client. A value is \<open>None\<close>, a bool, an int, a float, a
  str, a list, a tuple or a dict with str keys. A dict is the list of its items in
  insertion order (Python dicts keep it); a well-formed dict has distinct keys. Floats are
  only passed through, never computed with.
\<close>

datatype pyval =
    PNone
  | PBool bool
  | PInt int
  | PFloat real
  | PStr string
  | PList "pyval list"
  | PTuple "pyval list"
  | PDict "(string \<times> pyval) list"

text \<open>
  The exceptions the code distinguishes. \<open>ObjectNotFound\<close> is a subclass of
  \<open>TypesenseClientError\<close>; every constructor is a subclass of \<open>Exception\<close>.
\<close>

datatype exn =
    ObjectNotFound
  | TypesenseClientError string
  | TypeError
  | AttributeError
  | KeyError
  | IndexError
  | ValueError
  | OtherException string

fun is_TypesenseClientError :: "exn \<Rightarrow> bool" where
  "is_TypesenseClientError ObjectNotFound = True"
| "is_TypesenseClientError (TypesenseClientError _) = True"
| "is_TypesenseClientError _ = False"

text \<open>Sequencing of a computation that may raise: the first exception wins.\<close>

fun bind_exn :: "exn + 'a \<Rightarrow> ('a \<Rightarrow> exn + 'b) \<Rightarrow> exn + 'b" where
  "bind_exn (Inl e) f = Inl e"
| "bind_exn (Inr x) f = f x"

text \<open>Truth value testing (\<open>if v:\<close>, \<open>v or d\<close>, \<open>a and b\<close>).\<close>

fun truthy :: "pyval \<Rightarrow> bool" where
  "truthy PNone = False"
| "truthy (PBool b) = b"
| "truthy (PInt i) = (i \<noteq> 0)"
| "truthy (PFloat r) = (r \<noteq> 0)"
| "truthy (PStr s) = (s \<noteq> [])"
| "truthy (PList xs) = (xs \<noteq> [])"
| "truthy (PTuple xs) = (xs \<noteq> [])"
| "truthy (PDict kvs) = (kvs \<noteq> [])"

text \<open>\<open>len(v)\<close>: a TypeError on a value without a length.\<close>

fun py_len :: "pyval \<Rightarrow> exn + nat" where
  "py_len (PStr s) = Inr (length s)"
| "py_len (PList xs) = Inr (length xs)"
| "py_len (PTuple xs) = Inr (length xs)"
| "py_len (PDict kvs) = Inr (length kvs)"
| "py_len _ = Inl TypeError"

text \<open>\<open>v[:50]\<close>: works on sequences, raises on everything else.\<close>

fun py_slice50 :: "pyval \<Rightarrow> exn + pyval" where
  "py_slice50 (PStr s) = Inr (PStr (take 50 s))"
| "py_slice50 (PList xs) = Inr (PList (take 50 xs))"
| "py_slice50 (PTuple xs) = Inr (PTuple (take 50 xs))"
| "py_slice50 _ = Inl TypeError"

text \<open>\<open>v.get(key, default)\<close>: only a dict has the method.\<close>

fun py_get :: "pyval \<Rightarrow> string \<Rightarrow> pyval \<Rightarrow> exn + pyval" where
  "py_get (PDict kvs) k d = Inr (case map_of kvs k of Some v \<Rightarrow> v | None \<Rightarrow> d)"
| "py_get _ k d = Inl AttributeError"

text \<open>\<open>v.items()\<close> and \<open>v.keys()\<close>.\<close>

fun py_items :: "pyval \<Rightarrow> exn + (string \<times> pyval) list" where
  "py_items (PDict kvs) = Inr kvs"
| "py_items _ = Inl AttributeError"

fun py_keys :: "pyval \<Rightarrow> exn + string list" where
  "py_keys (PDict kvs) = Inr (map fst kvs)"
| "py_keys _ = Inl AttributeError"

text \<open>\<open>v[key]\<close> with a str key, and \<open>v[0]\<close>.\<close>

fun py_getitem :: "pyval \<Rightarrow> string \<Rightarrow> exn + pyval" where
  "py_getitem (PDict kvs) k = (case map_of kvs k of Some v \<Rightarrow> Inr v | None \<Rightarrow> Inl KeyError)"
| "py_getitem _ k = Inl TypeError"

fun py_getitem0 :: "pyval \<Rightarrow> exn + pyval" where
  "py_getitem0 (PList []) = Inl IndexError"
| "py_getitem0 (PList (x # xs)) = Inr x"
| "py_getitem0 (PTuple []) = Inl IndexError"
| "py_getitem0 (PTuple (x # xs)) = Inr x"
| "py_getitem0 (PStr []) = Inl IndexError"
| "py_getitem0 (PStr (c # cs)) = Inr (PStr [c])"
| "py_getitem0 (PDict kvs) = Inl KeyError"
| "py_getitem0 _ = Inl TypeError"

text \<open>Iteration (\<open>for x in v\<close>): a str yields its characters, a dict its keys.\<close>

fun py_iter :: "pyval \<Rightarrow> exn + pyval list" where
  "py_iter (PList xs) = Inr xs"
| "py_iter (PTuple xs) = Inr xs"
| "py_iter (PStr s) = Inr (map (\<lambda>c. PStr [c]) s)"
| "py_iter (PDict kvs) = Inr (map (\<lambda>kv. PStr (fst kv)) kvs)"
| "py_iter _ = Inl TypeError"

fun is_dict :: "pyval \<Rightarrow> bool" where
  "is_dict (PDict kvs) = True"
| "is_dict _ = False"

text \<open>\<open>sep.join(parts)\<close>.\<close>

fun join :: "string \<Rightarrow> string list \<Rightarrow> string" where
  "join sep [] = []"
| "join sep [x] = x"
| "join sep (x # y # ys) = x @ sep @ join sep (y # ys)"

text \<open>Decimal rendering of an int, as \<open>str\<close> gives it.\<close>

definition digit_char :: "nat \<Rightarrow> char" where
  "digit_char d = ''0123456789'' ! d"

fun show_nat :: "nat \<Rightarrow> string" where
  "show_nat n = (if n < 10 then [digit_char n] else show_nat (n div 10) @ [digit_char (n mod 10)])"

declare show_nat.simps [simp del]

definition show_int :: "int \<Rightarrow> string" where
  "show_int i = (if i < 0 then CHR ''-'' # show_nat (nat (- i)) else show_nat (nat i))"

text \<open>
  \<open>str(v)\<close>. The rendering of a float or of a container (which needs \<open>repr\<close>) belongs to
  the Python runtime and is a parameter.
\<close>

fun py_str :: "(pyval \<Rightarrow> string) \<Rightarrow> pyval \<Rightarrow> string" where
  "py_str other PNone = ''None''"
| "py_str other (PBool b) = (if b then ''True'' else ''False'')"
| "py_str other (PInt i) = show_int i"
| "py_str other (PStr s) = s"
| "py_str other v = other v"

section \<open>index.py: the schema builder\<close>

datatype Distance = COSINE | EUCLIDEAN | DOT_PRODUCT

fun Distance_value :: "Distance \<Rightarrow> string" where
  "Distance_value COSINE = ''cosine''"
| "Distance_value EUCLIDEAN = ''euclidean''"
| "Distance_value DOT_PRODUCT = ''dot_product''"

text \<open>The dataclass \<open>HNSWConfig\<close>; its fields \<open>m\<close> and \<open>ef\<close> carry a prefix here.\<close>

record HNSWConfig =
  max_elements :: int
  hnsw_m :: int
  ef_construction :: int
  hnsw_ef :: int

definition HNSWConfig_default :: HNSWConfig where
  "HNSWConfig_default =
     \<lparr>max_elements = 1000000, hnsw_m = 16, ef_construction = 100, hnsw_ef = 64\<rparr>"

text \<open>
  \<open>create_schema(name, dimension, distance, hnsw_config, additional_fields)\<close>. An instance
  of the dataclass is always true, so \<open>if hnsw_config:\<close> tests for \<open>None\<close>;
  \<open>if additional_fields:\<close> is false for \<open>None\<close> and for the empty list.
\<close>

definition embedding_field :: "int \<Rightarrow> Distance \<Rightarrow> HNSWConfig option \<Rightarrow> (string \<times> pyval) list" where
  "embedding_field dimension distance hnsw_config =
     (let field = [(''name'', PStr ''embedding''),
                   (''type'', PStr ''float[]''),
                   (''num_dim'', PInt dimension),
                   (''vec_dist'', PStr (Distance_value distance))]
      in case hnsw_config of
           None \<Rightarrow> field
         | Some c \<Rightarrow>
             AList.update ''hnsw_params''
               (PDict [(''M'', PInt (hnsw_m c)), (''ef_construction'', PInt (ef_construction c))])
               field)"

definition create_schema ::
  "string \<Rightarrow> int \<Rightarrow> Distance \<Rightarrow> HNSWConfig option \<Rightarrow> pyval list option \<Rightarrow> pyval" where
  "create_schema name dimension distance hnsw_config additional_fields =
     (let fields = [PDict [(''name'', PStr ''id''), (''type'', PStr ''string'')],
                    PDict [(''name'', PStr ''content''), (''type'', PStr ''string'')],
                    PDict [(''name'', PStr ''meta_data''), (''type'', PStr ''object'')],
                    PDict (embedding_field dimension distance hnsw_config)];
          fields' = (case additional_fields of
                       None \<Rightarrow> fields
                     | Some extra \<Rightarrow> if extra \<noteq> [] then fields @ extra else fields)
      in PDict [(''name'', PStr name),
                (''enable_nested_fields'', PBool True),
                (''fields'', PList fields')])"

section \<open>Documents and the environment\<close>

text \<open>
  The embedding of a document is \<open>None\<close> or a list (\<open>Plain\<close>), or a numpy array. An array
  is represented by its contents, the value \<open>tolist()\<close> returns.
\<close>

datatype embval = Plain pyval | NdArray pyval

fun emb_len :: "embval \<Rightarrow> exn + nat" where
  "emb_len (Plain v) = py_len v"
| "emb_len (NdArray (PList xs)) = Inr (length xs)"
| "emb_len (NdArray _) = Inl TypeError"

text \<open>\<open>e.tolist() if isinstance(e, np.ndarray) else e\<close>.\<close>

fun tolist_if_ndarray :: "embval \<Rightarrow> pyval" where
  "tolist_if_ndarray (NdArray c) = c"
| "tolist_if_ndarray (Plain v) = v"

text \<open>
  The class \<open>Document\<close> of the agno library, with the four fields the adapter reads and
  writes. It is a plain dataclass: constructing one checks nothing, and \<open>id\<close> may be
  \<open>None\<close> (insert generates an id for such a document).
\<close>

record Document =
  doc_id :: pyval
  content :: pyval
  meta_data :: pyval
  embedding :: embval

text \<open>
  Everything outside the adapter is the environment: the Typesense server behind the
  client, the embedder, the uuid generator and numpy. Each call to the server or the
  embedder is appended to a history, and the environment answers a call as any function
  of the history so far: a result, or an exception. So a server that fails on the third
  request, or an embedder that fails on one text, is one particular environment.
\<close>

datatype call =
    CollectionRetrieve string
  | CollectionsCreate pyval
  | CollectionDelete string
  | DocumentsCreate string pyval
  | DocumentsSearch string pyval
  | MultiSearchPerform pyval
  | GetEmbedding pyval
  | Uuid4

record world =
  respond :: "call list \<Rightarrow> call \<Rightarrow> exn + pyval"
  get_embedding :: "call list \<Rightarrow> pyval \<Rightarrow> exn + embval"
  uuid4 :: "call list \<Rightarrow> string"
  np_array :: "pyval \<Rightarrow> exn + embval"
  str_other :: "pyval \<Rightarrow> string"

section \<open>search.py\<close>

subsection \<open>build_filter_string\<close>

definition filter_part :: "(pyval \<Rightarrow> string) \<Rightarrow> string \<Rightarrow> pyval \<Rightarrow> string" where
  "filter_part other field v =
     (case v of
        PList xs \<Rightarrow> field @ '':=['' @ join '','' (map (py_str other) xs) @ '']''
      | PTuple xs \<Rightarrow> field @ '':=['' @ join '','' (map (py_str other) xs) @ '']''
      | _ \<Rightarrow> field @ '':='' @ py_str other v)"

fun filter_parts_loop ::
  "(pyval \<Rightarrow> string) \<Rightarrow> (string \<times> pyval) list \<Rightarrow> string list \<Rightarrow> string list" where
  "filter_parts_loop other [] filter_parts = filter_parts"
| "filter_parts_loop other ((field, v) # items) filter_parts =
     filter_parts_loop other items (filter_parts @ [filter_part other field v])"

definition build_filter_string :: "(pyval \<Rightarrow> string) \<Rightarrow> pyval \<Rightarrow> exn + string" where
  "build_filter_string other filters =
     bind_exn (py_items filters)
       (\<lambda>items. Inr (join '' && '' (filter_parts_loop other items [])))"

text \<open>
  The statement \<open>if filters: request["filter_by"] = build_filter_string(filters)\<close>, which
  each of the three searches applies to its request.
\<close>

definition apply_filters ::
  "world \<Rightarrow> pyval \<Rightarrow> (string \<times> pyval) list \<Rightarrow> exn + (string \<times> pyval) list" where
  "apply_filters w filters search =
     (if truthy filters
      then bind_exn (build_filter_string (str_other w) filters)
             (\<lambda>s. Inr (AList.update ''filter_by'' (PStr s) search))
      else Inr search)"

subsection \<open>TypesenseSearch._process_results\<close>

text \<open>The handle \<open>TypesenseSearch\<close> holds the collection (its name); the client is the world.\<close>

record TypesenseSearch =
  collection :: string

text \<open>
  The dict comprehension \<open>{k: v for k, v in doc.items() if k not in ['id', 'content']}\<close>
  and the dict display \<open>{'vector_distance': d, **rest}\<close>: a key that is set again keeps its
  place and takes the new value.
\<close>

fun dict_update_all :: "(string \<times> pyval) list \<Rightarrow> (string \<times> pyval) list \<Rightarrow> (string \<times> pyval) list" where
  "dict_update_all d [] = d"
| "dict_update_all d ((k, v) # kvs) = dict_update_all (AList.update k v d) kvs"

definition other_fields :: "(string \<times> pyval) list \<Rightarrow> (string \<times> pyval) list" where
  "other_fields items =
     dict_update_all [] (filter (\<lambda>kv. fst kv \<notin> set [''id'', ''content'']) items)"

text \<open>The body of the \<open>try\<close> of the loop: the construction of one Document.\<close>

definition process_hit :: "world \<Rightarrow> pyval \<Rightarrow> pyval \<Rightarrow> exn + Document" where
  "process_hit w hit doc =
     bind_exn (py_get doc ''id'' PNone) (\<lambda>i.
     bind_exn (py_get doc ''content'' (PStr [])) (\<lambda>c.
     bind_exn (py_get hit ''vector_distance'' PNone) (\<lambda>vd.
     bind_exn (py_items doc) (\<lambda>items.
     bind_exn (py_get doc ''embedding'' PNone) (\<lambda>e.
     bind_exn (if truthy e then np_array w e else Inr (Plain PNone)) (\<lambda>emb.
       Inr \<lparr>doc_id = i, content = c,
            meta_data = PDict (dict_update_all [(''vector_distance'', vd)] (other_fields items)),
            embedding = emb\<rparr>))))))"

text \<open>
  The loop over the hits. \<open>hit.get('document', {})\<close> stands before the \<open>try\<close>: when it
  raises, the loop is left with the exception. An exception of the body skips the hit.
\<close>

fun process_hits :: "world \<Rightarrow> pyval list \<Rightarrow> Document list \<Rightarrow> exn + Document list" where
  "process_hits w [] documents = Inr documents"
| "process_hits w (hit # hits) documents =
     (case py_get hit ''document'' (PDict []) of
        Inl e \<Rightarrow> Inl e
      | Inr doc \<Rightarrow>
          (case process_hit w hit doc of
             Inl e \<Rightarrow> process_hits w hits documents
           | Inr document \<Rightarrow> process_hits w hits (documents @ [document])))"

definition TypesenseSearch_process_results :: "world \<Rightarrow> pyval \<Rightarrow> exn + Document list" where
  "TypesenseSearch_process_results w results =
     bind_exn (py_get results ''hits'' (PList [])) (\<lambda>hs.
     bind_exn (py_iter hs) (\<lambda>hits. process_hits w hits []))"

subsection \<open>The three searches of TypesenseSearch\<close>

text \<open>The test \<open>results and results.get('results') and results['results'][0].get('hits')\<close>.\<close>

definition has_hits :: "pyval \<Rightarrow> exn + bool" where
  "has_hits results =
     (if \<not> truthy results then Inr False
      else bind_exn (py_get results ''results'' PNone) (\<lambda>r.
        if \<not> truthy r then Inr False
        else bind_exn (py_getitem results ''results'') (\<lambda>rs.
             bind_exn (py_getitem0 rs) (\<lambda>r0.
             bind_exn (py_get r0 ''hits'' PNone) (\<lambda>hits. Inr (truthy hits))))))"

text \<open>\<open>results['results'][0]['hits']\<close>.\<close>

definition first_hits :: "pyval \<Rightarrow> exn + pyval" where
  "first_hits results =
     bind_exn (py_getitem results ''results'') (\<lambda>rs.
     bind_exn (py_getitem0 rs) (\<lambda>r0. py_getitem r0 ''hits''))"

text \<open>
  The branch taken when the multi-search response has hits: their number is logged, then
  they are normalized.
\<close>

definition process_first_hits :: "world \<Rightarrow> pyval \<Rightarrow> exn + Document list" where
  "process_first_hits w results =
     bind_exn (first_hits results) (\<lambda>hits.
     bind_exn (py_len hits) (\<lambda>n.
       TypesenseSearch_process_results w (PDict [(''hits'', hits)])))"

definition vector_search_request ::
  "world \<Rightarrow> TypesenseSearch \<Rightarrow> pyval \<Rightarrow> int \<Rightarrow> pyval \<Rightarrow> exn + pyval" where
  "vector_search_request w self query_vector limit filters =
     bind_exn (py_len query_vector) (\<lambda>n.
     bind_exn (py_iter query_vector) (\<lambda>vs.
     bind_exn (apply_filters w filters
                 [(''q'', PStr ''*''),
                  (''collection'', PStr (collection self)),
                  (''vector_query'',
                     PStr (''embedding:(['' @ join '','' (map (py_str (str_other w)) vs)
                             @ ''], k:'' @ show_int limit @ '')'')),
                  (''limit'', PInt limit)]) (\<lambda>search.
       Inr (PDict [(''searches'', PList [PDict search])]))))"

text \<open>The body of the \<open>try\<close> of \<open>vector_search\<close>, and the method with its handler.\<close>

definition TypesenseSearch_vector_search_try ::
  "world \<Rightarrow> TypesenseSearch \<Rightarrow> pyval \<Rightarrow> int \<Rightarrow> pyval \<Rightarrow> call list
     \<Rightarrow> (exn + Document list) \<times> call list" where
  "TypesenseSearch_vector_search_try w self query_vector limit filters h =
     (case vector_search_request w self query_vector limit filters of
        Inl e \<Rightarrow> (Inl e, h)
      | Inr request \<Rightarrow>
          (case respond w h (MultiSearchPerform request) of
             Inl e \<Rightarrow> (Inl e, h @ [MultiSearchPerform request])
           | Inr results \<Rightarrow>
               (bind_exn (has_hits results) (\<lambda>b.
                  if b then process_first_hits w results else Inr []),
                h @ [MultiSearchPerform request])))"

definition TypesenseSearch_vector_search ::
  "world \<Rightarrow> TypesenseSearch \<Rightarrow> pyval \<Rightarrow> int \<Rightarrow> pyval \<Rightarrow> call list
     \<Rightarrow> (exn + Document list) \<times> call list" where
  "TypesenseSearch_vector_search w self query_vector limit filters h =
     (case TypesenseSearch_vector_search_try w self query_vector limit filters h of
        (Inl e, h') \<Rightarrow> (Inr [], h')
      | (Inr documents, h') \<Rightarrow> (Inr documents, h'))"

definition keyword_search_params :: "world \<Rightarrow> string \<Rightarrow> int \<Rightarrow> pyval \<Rightarrow> exn + pyval" where
  "keyword_search_params w query limit filters =
     bind_exn (apply_filters w filters
                 [(''q'', PStr query), (''query_by'', PStr ''content''), (''limit'', PInt limit)])
       (\<lambda>search_params. Inr (PDict search_params))"

text \<open>\<open>keyword_search\<close> has no handler of its own: an exception leaves the method.\<close>

definition TypesenseSearch_keyword_search ::
  "world \<Rightarrow> TypesenseSearch \<Rightarrow> string \<Rightarrow> int \<Rightarrow> pyval \<Rightarrow> call list
     \<Rightarrow> (exn + Document list) \<times> call list" where
  "TypesenseSearch_keyword_search w self query limit filters h =
     (case keyword_search_params w query limit filters of
        Inl e \<Rightarrow> (Inl e, h)
      | Inr search_params \<Rightarrow>
          (case respond w h (DocumentsSearch (collection self) search_params) of
             Inl e \<Rightarrow> (Inl e, h @ [DocumentsSearch (collection self) search_params])
           | Inr results \<Rightarrow>
               (bind_exn (py_get results ''hits'' (PList [])) (\<lambda>hits.
                bind_exn (py_len hits) (\<lambda>n.
                  TypesenseSearch_process_results w results)),
                h @ [DocumentsSearch (collection self) search_params])))"

definition hybrid_search_request ::
  "world \<Rightarrow> TypesenseSearch \<Rightarrow> string \<Rightarrow> pyval \<Rightarrow> int \<Rightarrow> pyval \<Rightarrow> exn + pyval" where
  "hybrid_search_request w self query query_vector limit filters =
     bind_exn (py_iter query_vector) (\<lambda>vs.
     bind_exn (apply_filters w filters
                 [(''q'', PStr query),
                  (''collection'', PStr (collection self)),
                  (''query_by'', PStr ''content''),
                  (''vector_query'',
                     PStr (''embedding:(['' @ join '','' (map (py_str (str_other w)) vs) @ ''])'')),
                  (''limit'', PInt limit)]) (\<lambda>search.
       Inr (PDict [(''searches'', PList [PDict search])])))"

text \<open>
  The \<open>else\<close> branch of \<open>hybrid_search\<close> prints the keys of the first result when there is
  one; that can raise as well.
\<close>

definition hybrid_no_hits :: "pyval \<Rightarrow> exn + Document list" where
  "hybrid_no_hits results =
     (if \<not> truthy results then Inr []
      else bind_exn (py_get results ''results'' PNone) (\<lambda>r.
        if \<not> truthy r then Inr []
        else bind_exn (py_getitem results ''results'') (\<lambda>rs.
             bind_exn (py_getitem0 rs) (\<lambda>r0.
             bind_exn (py_keys r0) (\<lambda>ks. Inr [])))))"

definition TypesenseSearch_hybrid_search_try ::
  "world \<Rightarrow> TypesenseSearch \<Rightarrow> string \<Rightarrow> pyval \<Rightarrow> int \<Rightarrow> pyval \<Rightarrow> call list
     \<Rightarrow> (exn + Document list) \<times> call list" where
  "TypesenseSearch_hybrid_search_try w self query query_vector limit filters h =
     (case hybrid_search_request w self query query_vector limit filters of
        Inl e \<Rightarrow> (Inl e, h)
      | Inr request \<Rightarrow>
          (case respond w h (MultiSearchPerform request) of
             Inl e \<Rightarrow> (Inl e, h @ [MultiSearchPerform request])
           | Inr results \<Rightarrow>
               (bind_exn (has_hits results) (\<lambda>b.
                  if b then process_first_hits w results else hybrid_no_hits results),
                h @ [MultiSearchPerform request])))"

definition TypesenseSearch_hybrid_search ::
  "world \<Rightarrow> TypesenseSearch \<Rightarrow> string \<Rightarrow> pyval \<Rightarrow> int \<Rightarrow> pyval \<Rightarrow> call list
     \<Rightarrow> (exn + Document list) \<times> call list" where
  "TypesenseSearch_hybrid_search w self query query_vector limit filters h =
     (case TypesenseSearch_hybrid_search_try w self query query_vector limit filters h of
        (Inl e, h') \<Rightarrow> (Inr [], h')
      | (Inr documents, h') \<Rightarrow> (Inr documents, h'))"

section \<open>The adapter TypesenseDb\<close>

datatype SearchType = SearchType_vector | SearchType_keyword | SearchType_hybrid

text \<open>
  The fields of a \<open>TypesenseDb\<close>; \<open>handler\<close> is the private field \<open>_search\<close>, the cached
  search handle. The client and the embedder are the world.
\<close>

record TypesenseDb =
  name :: string
  dimension :: int
  distance :: Distance
  hnsw_config :: HNSWConfig
  schema :: pyval
  handler :: "TypesenseSearch option"
  search_type :: SearchType

definition TypesenseDb_init ::
  "string \<Rightarrow> int \<Rightarrow> Distance \<Rightarrow> HNSWConfig option \<Rightarrow> SearchType \<Rightarrow> TypesenseDb" where
  "TypesenseDb_init n d metric cfg st =
     (let c = (case cfg of Some c \<Rightarrow> c | None \<Rightarrow> HNSWConfig_default)
      in \<lparr>name = n, dimension = d, distance = metric, hnsw_config = c,
          schema = create_schema n d metric (Some c) None,
          handler = None, search_type = st\<rparr>)"

text \<open>
  \<open>exists\<close>: the probe \<open>collections[name].retrieve()\<close>. \<open>ObjectNotFound\<close> and every other
  \<open>TypesenseClientError\<close> give False; any other exception leaves the method.
\<close>

definition TypesenseDb_exists :: "world \<Rightarrow> TypesenseDb \<Rightarrow> call list \<Rightarrow> (exn + bool) \<times> call list" where
  "TypesenseDb_exists w self h =
     (case respond w h (CollectionRetrieve (name self)) of
        Inr r \<Rightarrow> (Inr True, h @ [CollectionRetrieve (name self)])
      | Inl e \<Rightarrow>
          (if is_TypesenseClientError e then Inr False else Inl e,
           h @ [CollectionRetrieve (name self)]))"

text \<open>\<open>create\<close>: the handler logs a \<open>TypesenseClientError\<close> and raises it again.\<close>

definition TypesenseDb_create :: "world \<Rightarrow> TypesenseDb \<Rightarrow> call list \<Rightarrow> (exn + unit) \<times> call list" where
  "TypesenseDb_create w self h =
     (case TypesenseDb_exists w self h of
        (Inl e, h1) \<Rightarrow> (Inl e, h1)
      | (Inr True, h1) \<Rightarrow> (Inr (), h1)
      | (Inr False, h1) \<Rightarrow>
          (case respond w h1 (CollectionsCreate (schema self)) of
             Inl e \<Rightarrow> (Inl e, h1 @ [CollectionsCreate (schema self)])
           | Inr r \<Rightarrow> (Inr (), h1 @ [CollectionsCreate (schema self)])))"

text \<open>The statement \<open>if not self.exists(): self.create()\<close> of \<open>search_handler\<close> and \<open>insert\<close>.\<close>

definition ensure_collection :: "world \<Rightarrow> TypesenseDb \<Rightarrow> call list \<Rightarrow> (exn + unit) \<times> call list" where
  "ensure_collection w self h =
     (case TypesenseDb_exists w self h of
        (Inl e, h1) \<Rightarrow> (Inl e, h1)
      | (Inr True, h1) \<Rightarrow> (Inr (), h1)
      | (Inr False, h1) \<Rightarrow> TypesenseDb_create w self h1)"

text \<open>The property \<open>search_handler\<close>: get the cached handle or create it.\<close>

definition TypesenseDb_search_handler ::
  "world \<Rightarrow> TypesenseDb \<Rightarrow> call list \<Rightarrow> (exn + TypesenseSearch) \<times> TypesenseDb \<times> call list" where
  "TypesenseDb_search_handler w self h =
     (case handler self of
        Some s \<Rightarrow> (Inr s, self, h)
      | None \<Rightarrow>
          (case ensure_collection w self h of
             (Inl e, h1) \<Rightarrow> (Inl e, self, h1)
           | (Inr u, h1) \<Rightarrow>
               (Inr \<lparr>collection = name self\<rparr>,
                self\<lparr>handler := Some \<lparr>collection = name self\<rparr>\<rparr>, h1)))"

subsection \<open>insert\<close>

text \<open>
  The caller's documents are objects: \<open>insert\<close> receives a list of references into a heap
  and assigns to \<open>doc.embedding\<close> there. The same object may stand in the list twice.
\<close>

type_synonym heap = "nat \<Rightarrow> Document"

text \<open>
  The statement \<open>if doc.embedding is None and doc.content: doc.embedding = ...\<close> with the
  \<open>print\<close> after it, whose argument \<open>len(doc.embedding)\<close> is evaluated.
\<close>

definition generate_embedding ::
  "world \<Rightarrow> nat \<Rightarrow> heap \<Rightarrow> call list \<Rightarrow> (exn + unit) \<times> heap \<times> call list" where
  "generate_embedding w r hp h =
     (if embedding (hp r) = Plain PNone \<and> truthy (content (hp r))
      then (case get_embedding w h (content (hp r)) of
              Inl e \<Rightarrow> (Inl e, hp, h @ [GetEmbedding (content (hp r))])
            | Inr v \<Rightarrow>
                (bind_exn (emb_len v) (\<lambda>n. Inr ()),
                 hp(r := (hp r)\<lparr>embedding := v\<rparr>),
                 h @ [GetEmbedding (content (hp r))]))
      else (Inr (), hp, h))"

text \<open>\<open>doc.id or str(uuid.uuid4())\<close>.\<close>

definition id_or_uuid :: "world \<Rightarrow> pyval \<Rightarrow> call list \<Rightarrow> pyval \<times> call list" where
  "id_or_uuid w i h = (if truthy i then (i, h) else (PStr (uuid4 w h), h @ [Uuid4]))"

text \<open>The cleaning of \<open>meta_data\<close>.\<close>

definition clean_meta_data :: "world \<Rightarrow> pyval \<Rightarrow> pyval" where
  "clean_meta_data w md =
     (let md' = (if truthy md then md else PDict [])
      in if is_dict md' then md' else PDict [(''value'', PStr (py_str (str_other w) md'))])"

text \<open>
  The body of the \<open>try\<close> of the first loop, for one document. The arguments of the
  \<open>print\<close> calls are evaluated: \<open>doc.content[:50]\<close> first, \<open>len(embedding)\<close> after the
  embedding step. The handler of this \<open>try\<close> logs the exception and raises it again.
\<close>

definition prepare_document ::
  "world \<Rightarrow> nat \<Rightarrow> heap \<Rightarrow> call list \<Rightarrow> (exn + pyval) \<times> heap \<times> call list" where
  "prepare_document w r hp h =
     (case py_slice50 (content (hp r)) of
        Inl e \<Rightarrow> (Inl e, hp, h)
      | Inr c50 \<Rightarrow>
          (case generate_embedding w r hp h of
             (Inl e, hp1, h1) \<Rightarrow> (Inl e, hp1, h1)
           | (Inr u, hp1, h1) \<Rightarrow>
               (case py_len (tolist_if_ndarray (embedding (hp1 r))) of
                  Inl e \<Rightarrow> (Inl e, hp1, h1)
                | Inr n \<Rightarrow>
                    (case id_or_uuid w (doc_id (hp1 r)) h1 of
                       (i, h2) \<Rightarrow>
                         (Inr (PDict [(''id'', i),
                                      (''content'', content (hp1 r)),
                                      (''embedding'', tolist_if_ndarray (embedding (hp1 r))),
                                      (''meta_data'', clean_meta_data w (meta_data (hp1 r)))]),
                          hp1, h2)))))"

fun prepare_documents ::
  "world \<Rightarrow> nat list \<Rightarrow> pyval list \<Rightarrow> heap \<Rightarrow> call list
     \<Rightarrow> (exn + pyval list) \<times> heap \<times> call list" where
  "prepare_documents w [] docs_to_insert hp h = (Inr docs_to_insert, hp, h)"
| "prepare_documents w (r # rs) docs_to_insert hp h =
     (case prepare_document w r hp h of
        (Inl e, hp1, h1) \<Rightarrow> (Inl e, hp1, h1)
      | (Inr doc_dict, hp1, h1) \<Rightarrow>
          prepare_documents w rs (docs_to_insert @ [doc_dict]) hp1 h1)"

text \<open>
  The second loop: one \<open>documents.create\<close> per prepared document, each in a \<open>try\<close> of its
  own whose handler records the failure. An entry of \<open>results\<close> has the keys \<open>success\<close>,
  \<open>document\<close> and, on failure, \<open>error\<close>.
\<close>

record outcome =
  success :: bool
  document :: pyval
  error :: "exn option"

definition doc_dict_id :: "pyval \<Rightarrow> pyval" where
  "doc_dict_id doc_dict = (case py_get doc_dict ''id'' PNone of Inr i \<Rightarrow> i | Inl e \<Rightarrow> PNone)"

fun insert_documents ::
  "world \<Rightarrow> string \<Rightarrow> pyval list \<Rightarrow> outcome list \<Rightarrow> call list \<Rightarrow> outcome list \<times> call list" where
  "insert_documents w n [] results h = (results, h)"
| "insert_documents w n (doc_dict # ds) results h =
     (case respond w h (DocumentsCreate n doc_dict) of
        Inr r \<Rightarrow>
          insert_documents w n ds
            (results @ [\<lparr>success = True, document = doc_dict_id doc_dict, error = None\<rparr>])
            (h @ [DocumentsCreate n doc_dict])
      | Inl e \<Rightarrow>
          insert_documents w n ds
            (results @ [\<lparr>success = False, document = doc_dict_id doc_dict, error = Some e\<rparr>])
            (h @ [DocumentsCreate n doc_dict]))"

text \<open>
  \<open>insert\<close>. The method returns \<open>None\<close>; the model returns the list \<open>results\<close> that the
  method logs (empty when nothing was submitted), the heap and the history.
\<close>

definition TypesenseDb_insert ::
  "world \<Rightarrow> TypesenseDb \<Rightarrow> nat list \<Rightarrow> heap \<Rightarrow> call list
     \<Rightarrow> (exn + outcome list) \<times> heap \<times> call list" where
  "TypesenseDb_insert w self documents hp h =
     (if documents = [] then (Inr [], hp, h)
      else
        (case ensure_collection w self h of
           (Inl e, h1) \<Rightarrow> (Inl e, hp, h1)
         | (Inr u, h1) \<Rightarrow>
             (case prepare_documents w documents [] hp h1 of
                (Inl e, hp2, h2) \<Rightarrow> (Inl e, hp2, h2)
              | (Inr docs_to_insert, hp2, h2) \<Rightarrow>
                  (if docs_to_insert \<noteq> []
                   then (case insert_documents w (name self) docs_to_insert [] h2 of
                           (results, h3) \<Rightarrow> (Inr results, hp2, h3))
                   else (Inr [], hp2, h2)))))"

subsection \<open>The searches of the adapter\<close>

text \<open>Each search runs in a \<open>try\<close> whose handler catches \<open>Exception\<close> and returns \<open>[]\<close>.\<close>

definition TypesenseDb_vector_search_try ::
  "world \<Rightarrow> TypesenseDb \<Rightarrow> string \<Rightarrow> int \<Rightarrow> pyval \<Rightarrow> call list
     \<Rightarrow> (exn + Document list) \<times> TypesenseDb \<times> call list" where
  "TypesenseDb_vector_search_try w self query limit filters h =
     (case get_embedding w h (PStr query) of
        Inl e \<Rightarrow> (Inl e, self, h @ [GetEmbedding (PStr query)])
      | Inr query_vector \<Rightarrow>
          (case TypesenseDb_search_handler w self (h @ [GetEmbedding (PStr query)]) of
             (Inl e, self1, h1) \<Rightarrow> (Inl e, self1, h1)
           | (Inr s, self1, h1) \<Rightarrow>
               (case TypesenseSearch_vector_search w s (tolist_if_ndarray query_vector)
                       limit filters h1 of
                  (res, h2) \<Rightarrow> (res, self1, h2))))"

definition TypesenseDb_vector_search ::
  "world \<Rightarrow> TypesenseDb \<Rightarrow> string \<Rightarrow> int \<Rightarrow> pyval \<Rightarrow> call list
     \<Rightarrow> (exn + Document list) \<times> TypesenseDb \<times> call list" where
  "TypesenseDb_vector_search w self query limit filters h =
     (case TypesenseDb_vector_search_try w self query limit filters h of
        (Inl e, self1, h1) \<Rightarrow> (Inr [], self1, h1)
      | (Inr documents, self1, h1) \<Rightarrow> (Inr documents, self1, h1))"

definition TypesenseDb_keyword_search_try ::
  "world \<Rightarrow> TypesenseDb \<Rightarrow> string \<Rightarrow> int \<Rightarrow> pyval \<Rightarrow> call list
     \<Rightarrow> (exn + Document list) \<times> TypesenseDb \<times> call list" where
  "TypesenseDb_keyword_search_try w self query limit filters h =
     (case TypesenseDb_search_handler w self h of
        (Inl e, self1, h1) \<Rightarrow> (Inl e, self1, h1)
      | (Inr s, self1, h1) \<Rightarrow>
          (case TypesenseSearch_keyword_search w s query limit filters h1 of
             (res, h2) \<Rightarrow> (res, self1, h2)))"

definition TypesenseDb_keyword_search ::
  "world \<Rightarrow> TypesenseDb \<Rightarrow> string \<Rightarrow> int \<Rightarrow> pyval \<Rightarrow> call list
     \<Rightarrow> (exn + Document list) \<times> TypesenseDb \<times> call list" where
  "TypesenseDb_keyword_search w self query limit filters h =
     (case TypesenseDb_keyword_search_try w self query limit filters h of
        (Inl e, self1, h1) \<Rightarrow> (Inr [], self1, h1)
      | (Inr documents, self1, h1) \<Rightarrow> (Inr documents, self1, h1))"

definition TypesenseDb_hybrid_search_try ::
  "world \<Rightarrow> TypesenseDb \<Rightarrow> string \<Rightarrow> int \<Rightarrow> pyval \<Rightarrow> call list
     \<Rightarrow> (exn + Document list) \<times> TypesenseDb \<times> call list" where
  "TypesenseDb_hybrid_search_try w self query limit filters h =
     (case get_embedding w h (PStr query) of
        Inl e \<Rightarrow> (Inl e, self, h @ [GetEmbedding (PStr query)])
      | Inr query_vector \<Rightarrow>
          (case TypesenseDb_search_handler w self (h @ [GetEmbedding (PStr query)]) of
             (Inl e, self1, h1) \<Rightarrow> (Inl e, self1, h1)
           | (Inr s, self1, h1) \<Rightarrow>
               (case TypesenseSearch_hybrid_search w s query (tolist_if_ndarray query_vector)
                       limit filters h1 of
                  (res, h2) \<Rightarrow> (res, self1, h2))))"

definition TypesenseDb_hybrid_search ::
  "world \<Rightarrow> TypesenseDb \<Rightarrow> string \<Rightarrow> int \<Rightarrow> pyval \<Rightarrow> call list
     \<Rightarrow> (exn + Document list) \<times> TypesenseDb \<times> call list" where
  "TypesenseDb_hybrid_search w self query limit filters h =
     (case TypesenseDb_hybrid_search_try w self query limit filters h of
        (Inl e, self1, h1) \<Rightarrow> (Inr [], self1, h1)
      | (Inr documents, self1, h1) \<Rightarrow> (Inr documents, self1, h1))"

text \<open>\<open>search\<close>: the dispatch on the configured search type, again in a \<open>try\<close>.\<close>

definition TypesenseDb_search ::
  "world \<Rightarrow> TypesenseDb \<Rightarrow> string \<Rightarrow> int \<Rightarrow> pyval \<Rightarrow> call list
     \<Rightarrow> (exn + Document list) \<times> TypesenseDb \<times> call list" where
  "TypesenseDb_search w self query limit filters h =
     (case (case search_type self of
              SearchType_vector \<Rightarrow> TypesenseDb_vector_search w self query limit filters h
            | SearchType_keyword \<Rightarrow> TypesenseDb_keyword_search w self query limit filters h
            | SearchType_hybrid \<Rightarrow> TypesenseDb_hybrid_search w self query limit filters h) of
        (Inl e, self1, h1) \<Rightarrow> (Inr [], self1, h1)
      | (Inr documents, self1, h1) \<Rightarrow> (Inr documents, self1, h1))"

subsection \<open>drop\<close>

text \<open>
  \<open>drop\<close>: when the probe finds the collection, delete it and reset the cached handle;
  the assignment is not reached when \<open>delete()\<close> raises. The handler raises again.
\<close>

definition TypesenseDb_drop ::
  "world \<Rightarrow> TypesenseDb \<Rightarrow> call list \<Rightarrow> (exn + unit) \<times> TypesenseDb \<times> call list" where
  "TypesenseDb_drop w self h =
     (case TypesenseDb_exists w self h of
        (Inl e, h1) \<Rightarrow> (Inl e, self, h1)
      | (Inr False, h1) \<Rightarrow> (Inr (), self, h1)
      | (Inr True, h1) \<Rightarrow>
          (case respond w h1 (CollectionDelete (name self)) of
             Inl e \<Rightarrow> (Inl e, self, h1 @ [CollectionDelete (name self)])
           | Inr r \<Rightarrow>
               (Inr (), self\<lparr>handler := None\<rparr>, h1 @ [CollectionDelete (name self)])))"

section \<open>An environment to run the adapter in\<close>

text \<open>
  A small in-memory server, used to run the adapter on concrete inputs. A collection is
  there when it was created and not deleted since; creating it twice is an error of the
  server; a document is accepted when the collection is there and its embedding has three
  components. The embedder fails on the text \<open>bad\<close> and returns a vector that is too
  short on the text \<open>short\<close>.
\<close>

fun collection_present :: "string \<Rightarrow> bool \<Rightarrow> call list \<Rightarrow> bool" where
  "collection_present n b [] = b"
| "collection_present n b (CollectionsCreate s # cs) =
     collection_present n (b \<or> py_get s ''name'' PNone = Inr (PStr n)) cs"
| "collection_present n b (CollectionDelete k # cs) = collection_present n (b \<and> k \<noteq> n) cs"
| "collection_present n b (c # cs) = collection_present n b cs"

definition demo_hit :: pyval where
  "demo_hit =
     PDict [(''document'',
               PDict [(''id'', PStr ''a''), (''content'', PStr ''apple''),
                      (''embedding'', PList [PFloat 1, PFloat 0, PFloat 0])]),
            (''vector_distance'', PFloat 0)]"

fun demo_respond :: "call list \<Rightarrow> call \<Rightarrow> exn + pyval" where
  "demo_respond h (CollectionRetrieve n) =
     (if collection_present n False h then Inr (PDict [(''name'', PStr n)])
      else Inl ObjectNotFound)"
| "demo_respond h (CollectionsCreate s) =
     (case py_get s ''name'' PNone of
        Inr (PStr n) \<Rightarrow>
          if collection_present n False h then Inl (TypesenseClientError ''ObjectAlreadyExists'')
          else Inr s
      | _ \<Rightarrow> Inl (TypesenseClientError ''RequestMalformed''))"
| "demo_respond h (CollectionDelete n) =
     (if collection_present n False h then Inr (PDict [(''name'', PStr n)])
      else Inl ObjectNotFound)"
| "demo_respond h (DocumentsCreate n d) =
     (if \<not> collection_present n False h then Inl ObjectNotFound
      else if bind_exn (py_get d ''embedding'' PNone) py_len = Inr 3 then Inr d
      else Inl (TypesenseClientError ''RequestMalformed''))"
| "demo_respond h (DocumentsSearch n p) = Inr (PDict [(''hits'', PList [demo_hit])])"
| "demo_respond h (MultiSearchPerform r) =
     Inr (PDict [(''results'', PList [PDict [(''hits'', PList [demo_hit])]])])"
| "demo_respond h c = Inl (OtherException ''not a request'')"

definition demo_get_embedding :: "call list \<Rightarrow> pyval \<Rightarrow> exn + embval" where
  "demo_get_embedding h text =
     (if text = PStr ''bad'' then Inl (OtherException ''embedding failed'')
      else if text = PStr ''short'' then Inr (Plain (PList [PFloat 1, PFloat 0]))
      else Inr (Plain (PList [PFloat 1, PFloat 0, PFloat 0])))"

definition demo_world :: world where
  "demo_world =
     \<lparr>respond = demo_respond,
      get_embedding = demo_get_embedding,
      uuid4 = (\<lambda>h. ''uuid-'' @ show_nat (length h)),
      np_array = (\<lambda>v. Inr (NdArray v)),
      str_other = (\<lambda>v. ''?'')\<rparr>"

text \<open>The same environment with the server unreachable: every request fails.\<close>

definition down_world :: world where
  "down_world = demo_world\<lparr>respond := (\<lambda>h c. Inl (OtherException ''connection refused''))\<rparr>"

definition demo_db :: TypesenseDb where
  "demo_db = TypesenseDb_init ''docs'' 3 COSINE None SearchType_hybrid"

text \<open>A heap with three documents without embedding, at the references 0, 1 and 2.\<close>

definition demo_document :: "string \<Rightarrow> string \<Rightarrow> Document" where
  "demo_document i c =
     \<lparr>doc_id = PStr i, content = PStr c, meta_data = PDict [], embedding = Plain PNone\<rparr>"

definition demo_heap :: "string \<Rightarrow> string \<Rightarrow> string \<Rightarrow> heap" where
  "demo_heap c0 c1 c2 =
     (\<lambda>r. if r = 0 then demo_document ''a'' c0
          else if r = 1 then demo_document ''b'' c1
          else demo_document ''c'' c2)"

section \<open>Notions used to state the properties\<close>

text \<open>The documents the normalizer recovers from one hit: one, or none when the hit is skipped.\<close>

definition hit_documents :: "world \<Rightarrow> pyval \<Rightarrow> Document list" where
  "hit_documents w hit =
     (case bind_exn (py_get hit ''document'' (PDict [])) (process_hit w hit) of
        Inr d \<Rightarrow> [d]
      | Inl e \<Rightarrow> [])"

text \<open>
  The normalizer as the property about it describes it. The payload of a hit is its
  \<open>document\<close> when that is a mapping (the empty mapping when the hit has none). A hit can
  be recovered when it has a payload and numpy decodes its embedding, if it has a
  non-empty one. The id, content and embedding of the recovered document are those of
  the payload: \<open>None\<close>, the empty string and \<open>None\<close> where the payload has none.
\<close>

definition hit_payload :: "pyval \<Rightarrow> (string \<times> pyval) list option" where
  "hit_payload hit =
     (case hit of
        PDict hkvs \<Rightarrow>
          (case map_of hkvs ''document'' of
             None \<Rightarrow> Some []
           | Some (PDict dkvs) \<Rightarrow> Some dkvs
           | Some other \<Rightarrow> None)
      | other \<Rightarrow> None)"

definition decoded_embedding :: "world \<Rightarrow> (string \<times> pyval) list \<Rightarrow> embval option" where
  "decoded_embedding w dkvs =
     (case map_of dkvs ''embedding'' of
        None \<Rightarrow> Some (Plain PNone)
      | Some e \<Rightarrow>
          if truthy e
          then (case np_array w e of Inr a \<Rightarrow> Some a | Inl x \<Rightarrow> None)
          else Some (Plain PNone))"

definition recoverable :: "world \<Rightarrow> pyval \<Rightarrow> bool" where
  "recoverable w hit =
     (case hit_payload hit of
        None \<Rightarrow> False
      | Some dkvs \<Rightarrow> (case decoded_embedding w dkvs of None \<Rightarrow> False | Some a \<Rightarrow> True))"

definition hit_id :: "pyval \<Rightarrow> pyval" where
  "hit_id hit =
     (case hit_payload hit of
        Some dkvs \<Rightarrow> (case map_of dkvs ''id'' of Some v \<Rightarrow> v | None \<Rightarrow> PNone)
      | None \<Rightarrow> PNone)"

definition hit_content :: "pyval \<Rightarrow> pyval" where
  "hit_content hit =
     (case hit_payload hit of
        Some dkvs \<Rightarrow> (case map_of dkvs ''content'' of Some v \<Rightarrow> v | None \<Rightarrow> PStr [])
      | None \<Rightarrow> PStr [])"

definition hit_embedding :: "world \<Rightarrow> pyval \<Rightarrow> embval" where
  "hit_embedding w hit =
     (case hit_payload hit of
        Some dkvs \<Rightarrow> (case decoded_embedding w dkvs of Some a \<Rightarrow> a | None \<Rightarrow> Plain PNone)
      | None \<Rightarrow> Plain PNone)"

text \<open>
  The reference environment with a numpy that refuses a ragged list, and two more raw
  hits: one without \<open>id\<close> that carries an embedding, and one with a ragged embedding.
\<close>

definition numpy_strict_world :: world where
  "numpy_strict_world =
     demo_world\<lparr>np_array :=
       (\<lambda>v. if v = PList [PList [PFloat 1], PFloat 0] then Inl ValueError else Inr (NdArray v))\<rparr>"

definition anonymous_hit :: pyval where
  "anonymous_hit =
     PDict [(''document'', PDict [(''content'', PStr ''fig''), (''embedding'', PList [PFloat 0, PFloat 1])])]"

definition ragged_hit :: pyval where
  "ragged_hit =
     PDict [(''document'', PDict [(''id'', PStr ''r''), (''content'', PStr ''rye''),
                                  (''embedding'', PList [PList [PFloat 1], PFloat 0])])]"

text \<open>Two raw hits: one whose document has no \<open>id\<close>, and one without a distance.\<close>

definition pear_hit :: pyval where
  "pear_hit = PDict [(''document'', PDict [(''content'', PStr ''pear'')])]"

definition plain_hit :: pyval where
  "plain_hit =
     PDict [(''document'', PDict [(''id'', PStr ''b''), (''content'', PStr ''banana''),
                                  (''embedding'', PList [])]),
            (''text_match'', PInt 578730)]"

text \<open>
  The filter compiler in the words of the specification: an equality predicate for a
  scalar value, a membership predicate for a list value, joined by AND in the order of
  the mapping. In the filter syntax of the server, \<open>field:=value\<close> is equality,
  \<open>field:=[a,b]\<close> is membership and \<open>&&\<close> is the conjunction.
\<close>

datatype predicate = Equality string pyval | Membership string "pyval list"

definition compileFilters_spec :: "(string \<times> pyval) list \<Rightarrow> predicate list" where
  "compileFilters_spec items =
     map (\<lambda>(field, v). case v of
                          PList xs \<Rightarrow> Membership field xs
                        | PTuple xs \<Rightarrow> Membership field xs
                        | _ \<Rightarrow> Equality field v) items"

fun render_predicate :: "(pyval \<Rightarrow> string) \<Rightarrow> predicate \<Rightarrow> string" where
  "render_predicate other (Equality field v) = field @ '':='' @ py_str other v"
| "render_predicate other (Membership field xs) =
     field @ '':=['' @ join '','' (map (py_str other) xs) @ '']''"

definition render_conjunction :: "(pyval \<Rightarrow> string) \<Rightarrow> predicate list \<Rightarrow> string" where
  "render_conjunction other ps = join '' && '' (map (render_predicate other) ps)"

text \<open>An adapter that holds a cached search handle.\<close>

definition cached_db :: TypesenseDb where
  "cached_db = demo_db\<lparr>handler := Some \<lparr>collection = ''docs''\<rparr>\<rparr>"

text \<open>
  The entry of \<open>results\<close> that the second loop of \<open>insert\<close> appends for a prepared
  document, when the request is sent after the history \<open>h\<close>.
\<close>

definition outcome_of :: "world \<Rightarrow> string \<Rightarrow> call list \<Rightarrow> pyval \<Rightarrow> outcome" where
  "outcome_of w n h doc_dict =
     (case respond w h (DocumentsCreate n doc_dict) of
        Inr r \<Rightarrow> \<lparr>success = True, document = doc_dict_id doc_dict, error = None\<rparr>
      | Inl e \<Rightarrow> \<lparr>success = False, document = doc_dict_id doc_dict, error = Some e\<rparr>)"

text \<open>
  How the first loop of \<open>insert\<close> may change the heap between two points of a run: an
  object is as it was, or it had no embedding and a non-empty content and now carries
  the vector the embedder returned for that content, at a point of the history in between.
\<close>

definition embeddings_written :: "world \<Rightarrow> heap \<Rightarrow> call list \<Rightarrow> heap \<Rightarrow> call list \<Rightarrow> bool" where
  "embeddings_written w hp h hp' h' \<longleftrightarrow>
     prefix h h' \<and>
     (\<forall>q. hp' q = hp q \<or>
          (embedding (hp q) = Plain PNone \<and> truthy (content (hp q)) \<and>
           (\<exists>g v. prefix h g \<and> prefix (g @ [GetEmbedding (content (hp q))]) h' \<and>
                  get_embedding w g (content (hp q)) = Inr v \<and> v \<noteq> Plain PNone \<and>
                  hp' q = (hp q)\<lparr>embedding := v\<rparr>)))"

fun is_DocumentsCreate :: "call \<Rightarrow> bool" where
  "is_DocumentsCreate (DocumentsCreate n d) = True"
| "is_DocumentsCreate c = False"

text \<open>The documents prepared from the heap with the contents \<open>apple\<close>, \<open>short\<close>, \<open>cherry\<close>.\<close>

definition short_docs :: "pyval list" where
  "short_docs =
     [PDict [(''id'', PStr ''a''), (''content'', PStr ''apple''),
             (''embedding'', PList [PFloat 1, PFloat 0, PFloat 0]), (''meta_data'', PDict [])],
      PDict [(''id'', PStr ''b''), (''content'', PStr ''short''),
             (''embedding'', PList [PFloat 1, PFloat 0]), (''meta_data'', PDict [])],
      PDict [(''id'', PStr ''c''), (''content'', PStr ''cherry''),
             (''embedding'', PList [PFloat 1, PFloat 0, PFloat 0]), (''meta_data'', PDict [])]]"

section \<open>Facts about the reference environment\<close>

lemma demo_db_fields: "name demo_db = ''docs''" "handler demo_db = None"
  "py_get (schema demo_db) ''name'' PNone = Inr (PStr ''docs'')"
  by (simp_all add: demo_db_def TypesenseDb_init_def create_schema_def Let_def)

lemma cached_db_fields: "name cached_db = ''docs''"
  "cached_db\<lparr>handler := None\<rparr> = demo_db"
  by (simp_all add: cached_db_def demo_db_def TypesenseDb_init_def Let_def)

lemma show_int_1: "show_int 1 = ''1''" "show_int 2 = ''2''" "show_int 3 = ''3''"
  by (simp_all add: show_int_def show_nat.simps digit_char_def)

lemmas demo_run = TypesenseDb_insert_def ensure_collection_def TypesenseDb_exists_def
  prepare_document_def generate_embedding_def demo_world_def demo_get_embedding_def
  demo_heap_def demo_document_def id_or_uuid_def clean_meta_data_def demo_db_fields
  doc_dict_id_def

section \<open>Search errors (C2)\<close>

lemma try_never_raises:
  "\<exists>ds. fst (case x of (Inl e, h') \<Rightarrow> (Inr [], h') | (Inr documents, h') \<Rightarrow> (Inr documents, h')) = Inr ds"
  by (cases x) (auto split: sum.splits)

lemma TypesenseSearch_vector_search_returns:
  "\<exists>ds. fst (TypesenseSearch_vector_search w s qv limit filters h) = Inr ds"
  unfolding TypesenseSearch_vector_search_def by (rule try_never_raises)

lemma TypesenseSearch_hybrid_search_returns:
  "\<exists>ds. fst (TypesenseSearch_hybrid_search w s q qv limit filters h) = Inr ds"
  unfolding TypesenseSearch_hybrid_search_def by (rule try_never_raises)

lemma try3_never_raises:
  "\<exists>ds. fst (case x of (Inl e, self1, h1) \<Rightarrow> (Inr [], self1, h1)
                       | (Inr documents, self1, h1) \<Rightarrow> (Inr documents, self1, h1)) = Inr ds"
  by (cases x) (auto split: sum.splits)

lemma try3_raised:
  "fst x = Inl e \<Longrightarrow>
     fst (case x of (Inl e, self1, h1) \<Rightarrow> (Inr [], self1, h1)
                  | (Inr documents, self1, h1) \<Rightarrow> (Inr documents, self1, h1)) = Inr []"
  by (cases x) (auto split: sum.splits)

text \<open>
  The searches of the adapter never raise: each returns a list of documents, the empty
  one when its \<open>try\<close> body raised. The vector and the hybrid search of the search
  executor do the same on their own.
\<close>

lemma TypesenseDb_searches_never_raise:
  "(\<exists>ds. fst (TypesenseDb_vector_search w self q limit filters h) = Inr ds)
 \<and> (\<exists>ds. fst (TypesenseDb_keyword_search w self q limit filters h) = Inr ds)
 \<and> (\<exists>ds. fst (TypesenseDb_hybrid_search w self q limit filters h) = Inr ds)
 \<and> (\<exists>ds. fst (TypesenseDb_search w self q limit filters h) = Inr ds)
 \<and> (\<exists>ds. fst (TypesenseSearch_vector_search w s qv limit filters h) = Inr ds)
 \<and> (\<exists>ds. fst (TypesenseSearch_hybrid_search w s q qv limit filters h) = Inr ds)
 \<and> (\<forall>e. fst (TypesenseSearch_vector_search_try w s qv limit filters h) = Inl e \<longrightarrow>
        fst (TypesenseSearch_vector_search w s qv limit filters h) = Inr [])
 \<and> (\<forall>e. fst (TypesenseSearch_hybrid_search_try w s q qv limit filters h) = Inl e \<longrightarrow>
        fst (TypesenseSearch_hybrid_search w s q qv limit filters h) = Inr [])
 \<and> (\<forall>e. handler self = Some s
          \<and> fst (TypesenseSearch_keyword_search w s q limit filters h) = Inl e \<longrightarrow>
        fst (TypesenseDb_keyword_search w self q limit filters h) = Inr [])
 \<and> (\<forall>e. fst (TypesenseDb_vector_search_try w self q limit filters h) = Inl e \<longrightarrow>
        fst (TypesenseDb_vector_search w self q limit filters h) = Inr [])
 \<and> (\<forall>e. fst (TypesenseDb_keyword_search_try w self q limit filters h) = Inl e \<longrightarrow>
        fst (TypesenseDb_keyword_search w self q limit filters h) = Inr [])
 \<and> (\<forall>e. fst (TypesenseDb_hybrid_search_try w self q limit filters h) = Inl e \<longrightarrow>
        fst (TypesenseDb_hybrid_search w self q limit filters h) = Inr [])"
proof -
  have v: "\<exists>ds. fst (TypesenseDb_vector_search w self q limit filters h) = Inr ds"
    unfolding TypesenseDb_vector_search_def by (rule try3_never_raises)
  have k: "\<exists>ds. fst (TypesenseDb_keyword_search w self q limit filters h) = Inr ds"
    unfolding TypesenseDb_keyword_search_def by (rule try3_never_raises)
  have y: "\<exists>ds. fst (TypesenseDb_hybrid_search w self q limit filters h) = Inr ds"
    unfolding TypesenseDb_hybrid_search_def by (rule try3_never_raises)
  have a: "\<exists>ds. fst (TypesenseDb_search w self q limit filters h) = Inr ds"
    unfolding TypesenseDb_search_def by (rule try3_never_raises)
  have sv: "fst (TypesenseSearch_vector_search w s qv limit filters h) = Inr []"
    if "fst (TypesenseSearch_vector_search_try w s qv limit filters h) = Inl e" for e
    using that unfolding TypesenseSearch_vector_search_def
    by (cases "TypesenseSearch_vector_search_try w s qv limit filters h") auto
  have sy: "fst (TypesenseSearch_hybrid_search w s q qv limit filters h) = Inr []"
    if "fst (TypesenseSearch_hybrid_search_try w s q qv limit filters h) = Inl e" for e
    using that unfolding TypesenseSearch_hybrid_search_def
    by (cases "TypesenseSearch_hybrid_search_try w s q qv limit filters h") auto
  have tv: "fst (TypesenseDb_vector_search w self q limit filters h) = Inr []"
    if "fst (TypesenseDb_vector_search_try w self q limit filters h) = Inl e" for e
    unfolding TypesenseDb_vector_search_def using that by (rule try3_raised)
  have tk: "fst (TypesenseDb_keyword_search w self q limit filters h) = Inr []"
    if "fst (TypesenseDb_keyword_search_try w self q limit filters h) = Inl e" for e
    unfolding TypesenseDb_keyword_search_def using that by (rule try3_raised)
  have ty: "fst (TypesenseDb_hybrid_search w self q limit filters h) = Inr []"
    if "fst (TypesenseDb_hybrid_search_try w self q limit filters h) = Inl e" for e
    unfolding TypesenseDb_hybrid_search_def using that by (rule try3_raised)
  have kk: "fst (TypesenseDb_keyword_search w self q limit filters h) = Inr []"
    if "handler self = Some s" "fst (TypesenseSearch_keyword_search w s q limit filters h) = Inl e"
    for e
  proof -
    have "fst (TypesenseDb_keyword_search_try w self q limit filters h) = Inl e"
      using that
      by (cases "TypesenseSearch_keyword_search w s q limit filters h")
         (simp add: TypesenseDb_keyword_search_try_def TypesenseDb_search_handler_def)
    then show ?thesis by (rule tk)
  qed
  from v k y a TypesenseSearch_vector_search_returns [of w s qv limit filters h]
    TypesenseSearch_hybrid_search_returns [of w s q qv limit filters h] sv sy kk tv tk ty
  show ?thesis by blast
qed

text \<open>
  C2 says that a search error is caught in the search executor, for each of the three
  searches. \<open>vector_search\<close> and \<open>hybrid_search\<close> of \<open>TypesenseSearch\<close> have the handler;
  \<open>keyword_search\<close> has none. With the server unreachable, \<open>TypesenseSearch.keyword_search\<close>
  raises the transport error, where its two siblings return the empty list; the error
  is caught only by the adapter's \<open>keyword_search\<close>.
\<close>

theorem C2_keyword_search_raises_in_executor:
  "TypesenseSearch_keyword_search down_world \<lparr>collection = ''docs''\<rparr> ''banana'' 5 PNone [] =
     (Inl (OtherException ''connection refused''),
      [DocumentsSearch ''docs''
         (PDict [(''q'', PStr ''banana''), (''query_by'', PStr ''content''), (''limit'', PInt 5)])])
 \<and> fst (TypesenseSearch_vector_search down_world \<lparr>collection = ''docs''\<rparr>
          (PList [PFloat 1, PFloat 0, PFloat 0]) 5 PNone []) = Inr []
 \<and> fst (TypesenseSearch_hybrid_search down_world \<lparr>collection = ''docs''\<rparr> ''banana''
          (PList [PFloat 1, PFloat 0, PFloat 0]) 5 PNone []) = Inr []
 \<and> fst (TypesenseDb_keyword_search down_world cached_db ''banana'' 5 PNone []) = Inr []"
  by (simp add: TypesenseSearch_keyword_search_def keyword_search_params_def apply_filters_def
        TypesenseSearch_vector_search_def TypesenseSearch_vector_search_try_def
        vector_search_request_def TypesenseSearch_hybrid_search_def
        TypesenseSearch_hybrid_search_try_def hybrid_search_request_def
        TypesenseDb_keyword_search_def TypesenseDb_keyword_search_try_def
        TypesenseDb_search_handler_def cached_db_def down_world_def)

section \<open>The result normalizer (C3, C9)\<close>

lemma process_hits_dicts:
  "(\<And>hit. hit \<in> set hits \<Longrightarrow> is_dict hit) \<Longrightarrow>
     process_hits w hits acc = Inr (acc @ concat (map (hit_documents w) hits))"
proof (induction hits arbitrary: acc)
  case Nil
  then show ?case by simp
next
  case (Cons hit hits)
  from Cons.prems have "is_dict hit" by simp
  then obtain kvs where hit: "hit = PDict kvs" by (cases hit) simp_all
  have rest: "\<And>acc'. process_hits w hits acc' = Inr (acc' @ concat (map (hit_documents w) hits))"
    using Cons.IH Cons.prems by simp
  define doc where "doc = (case map_of kvs ''document'' of None \<Rightarrow> PDict [] | Some v \<Rightarrow> v)"
  have hd: "hit_documents w hit = (case process_hit w hit doc of Inr d \<Rightarrow> [d] | Inl e \<Rightarrow> [])"
    by (simp add: hit hit_documents_def doc_def)
  have step: "process_hits w (hit # hits) acc =
      (case process_hit w hit doc of
         Inl e \<Rightarrow> process_hits w hits acc
       | Inr d \<Rightarrow> process_hits w hits (acc @ [d]))"
    by (simp add: hit doc_def)
  show ?case
    unfolding step by (cases "process_hit w hit doc") (simp_all add: hd rest)
qed

lemma process_hit_not_dict: "\<not> is_dict doc \<Longrightarrow> process_hit w hit doc = Inl AttributeError"
  by (cases doc) (simp_all add: process_hit_def)

lemma map_of_dict_update_all:
  "distinct (map fst kvs) \<Longrightarrow>
     map_of (dict_update_all d kvs) k = (case map_of kvs k of Some v \<Rightarrow> Some v | None \<Rightarrow> map_of d k)"
proof (induction kvs arbitrary: d)
  case Nil
  then show ?case by simp
next
  case (Cons kv kvs)
  obtain k' v' where kv: "kv = (k', v')" by (cases kv)
  from Cons.prems have d: "distinct (map fst kvs)" and nin: "k' \<notin> fst ` set kvs"
    by (simp_all add: kv)
  have "map_of kvs k' = None" using nin by (simp add: map_of_eq_None_iff)
  then show ?case
    using Cons.IH [OF d, of "AList.update k' v' d"]
    by (auto simp: kv update_conv' split: option.splits)
qed

lemma map_of_other_fields:
  assumes "distinct (map fst kvs)"
  shows "map_of (other_fields kvs) k =
           (if k = ''id'' \<or> k = ''content'' then None else map_of kvs k)"
proof -
  have d: "distinct (map fst (filter (\<lambda>kv. fst kv \<notin> set [''id'', ''content'']) kvs))"
    using assms by (simp add: distinct_map_filter)
  have "map_of (filter (\<lambda>kv. fst kv \<notin> set [''id'', ''content'']) kvs) k =
          (if k = ''id'' \<or> k = ''content'' then None else map_of kvs k)"
    by (induction kvs) auto
  then show ?thesis
    unfolding other_fields_def using map_of_dict_update_all [OF d, of "[]" k]
    by (simp split: option.splits)
qed

lemma distinct_other_fields:
  "distinct (map fst d) \<Longrightarrow> distinct (map fst (dict_update_all d kvs))"
  by (induction kvs arbitrary: d) (auto simp: distinct_update)

lemma hit_documents_recovered:
  assumes "is_dict hit"
  shows "map doc_id (hit_documents w hit) = (if recoverable w hit then [hit_id hit] else [])
       \<and> map content (hit_documents w hit) = (if recoverable w hit then [hit_content hit] else [])
       \<and> map embedding (hit_documents w hit) =
            (if recoverable w hit then [hit_embedding w hit] else [])"
proof -
  from assms obtain hkvs where hit: "hit = PDict hkvs" by (cases hit) simp_all
  show ?thesis
  proof (cases "map_of hkvs ''document''")
    case None
    then show ?thesis
      by (simp add: hit hit_documents_def process_hit_def recoverable_def hit_payload_def
            decoded_embedding_def hit_id_def hit_content_def hit_embedding_def)
  next
    case (Some doc)
    show ?thesis
    proof (cases "is_dict doc")
      case False
      then have "process_hit w hit doc = Inl AttributeError" by (rule process_hit_not_dict)
      moreover from False have "hit_payload (PDict hkvs) = None"
        by (cases doc) (simp_all add: hit_payload_def Some)
      ultimately show ?thesis
        by (simp add: hit_documents_def hit Some recoverable_def)
    next
      case True
      then obtain dkvs where doc: "doc = PDict dkvs" by (cases doc) simp_all
      have pay: "hit_payload (PDict hkvs) = Some dkvs" by (simp add: hit_payload_def Some doc)
      show ?thesis
      proof (cases "map_of dkvs ''embedding''")
        case None
        then show ?thesis
          by (simp add: hit_documents_def hit Some doc process_hit_def recoverable_def pay
                decoded_embedding_def hit_id_def hit_content_def hit_embedding_def)
      next
        case e: (Some e)
        show ?thesis
        proof (cases "truthy e")
          case False
          then show ?thesis
            by (simp add: hit_documents_def hit Some doc process_hit_def recoverable_def pay
                  decoded_embedding_def hit_id_def hit_content_def hit_embedding_def e)
        next
          case True
          then show ?thesis
            by (cases "np_array w e")
               (simp_all add: hit_documents_def hit Some doc process_hit_def recoverable_def pay
                  decoded_embedding_def hit_id_def hit_content_def hit_embedding_def e)
        qed
      qed
    qed
  qed
qed

lemma concat_hit_documents:
  assumes "\<And>hit. hit \<in> set hits \<Longrightarrow> is_dict hit"
  shows "map doc_id (concat (map (hit_documents w) hits)) = map hit_id (filter (recoverable w) hits)
       \<and> map content (concat (map (hit_documents w) hits)) =
            map hit_content (filter (recoverable w) hits)
       \<and> map embedding (concat (map (hit_documents w) hits)) =
            map (hit_embedding w) (filter (recoverable w) hits)"
  using assms
proof (induction hits)
  case Nil
  then show ?case by simp
next
  case (Cons hit hits)
  have "is_dict hit" using Cons.prems by simp
  from hit_documents_recovered [OF this, of w] Cons.IH Cons.prems
  show ?case by simp
qed

text \<open>
  C3, as the code has it. For a list of hits that are mappings the normalizer never
  raises: it returns one document for each hit that can be recovered, in the order of the
  hits, with the id, the content and the decoded embedding of the hit's document. So a
  hit is skipped exactly when its \<open>document\<close> is not a mapping or numpy refuses its
  embedding; a hit whose document lacks \<open>id\<close> is kept, with or without an embedding, and
  gives a document whose id is \<open>None\<close>.
\<close>

theorem C3_only_undecodable_hits_are_skipped:
  assumes "\<forall>hit \<in> set hits. is_dict hit"
  shows "\<exists>ds. TypesenseSearch_process_results w (PDict [(''hits'', PList hits)]) = Inr ds
             \<and> map doc_id ds = map hit_id (filter (recoverable w) hits)
             \<and> map content ds = map hit_content (filter (recoverable w) hits)
             \<and> map embedding ds = map (hit_embedding w) (filter (recoverable w) hits)"
proof -
  have run: "TypesenseSearch_process_results w (PDict [(''hits'', PList hits)]) =
           Inr (concat (map (hit_documents w) hits))"
    using assms by (simp add: TypesenseSearch_process_results_def process_hits_dicts)
  from concat_hit_documents [of hits w] assms run show ?thesis by simp
qed

text \<open>
  C3, as stated, fails: the normalizer applied to one well-formed hit and one hit missing
  \<open>id\<close> returns two documents, the second with id \<open>None\<close>.
\<close>

theorem C3_missing_id_is_kept:
  "TypesenseSearch_process_results demo_world (PDict [(''hits'', PList [demo_hit, pear_hit])]) =
     Inr [\<lparr>doc_id = PStr ''a'', content = PStr ''apple'',
           meta_data = PDict [(''vector_distance'', PFloat 0),
                              (''embedding'', PList [PFloat 1, PFloat 0, PFloat 0])],
           embedding = NdArray (PList [PFloat 1, PFloat 0, PFloat 0])\<rparr>,
          \<lparr>doc_id = PNone, content = PStr ''pear'',
           meta_data = PDict [(''vector_distance'', PNone)],
           embedding = Plain PNone\<rparr>]"
  by (simp add: TypesenseSearch_process_results_def demo_hit_def pear_hit_def process_hit_def
        other_fields_def demo_world_def)

text \<open>
  Five hits: a well-formed one, one whose document is \<open>None\<close> (skipped), one without
  \<open>id\<close> (kept), one whose embedding numpy refuses (skipped) and one without \<open>id\<close> that
  carries an embedding (kept).
\<close>

theorem C3_only_undecodable_hits_are_skipped_witness:
  "\<exists>ds. TypesenseSearch_process_results numpy_strict_world
           (PDict [(''hits'', PList [demo_hit, PDict [(''document'', PNone)], pear_hit,
                                     ragged_hit, anonymous_hit])]) = Inr ds
        \<and> map doc_id ds = [PStr ''a'', PNone, PNone]
        \<and> map content ds = [PStr ''apple'', PStr ''pear'', PStr ''fig'']
        \<and> map embedding ds = [NdArray (PList [PFloat 1, PFloat 0, PFloat 0]), Plain PNone,
                               NdArray (PList [PFloat 0, PFloat 1])]"
proof -
  let ?hits = "[demo_hit, PDict [(''document'', PNone)], pear_hit, ragged_hit, anonymous_hit]"
  have dicts: "\<forall>hit \<in> set ?hits. is_dict hit"
    by (simp add: demo_hit_def pear_hit_def ragged_hit_def anonymous_hit_def)
  have kept: "filter (recoverable numpy_strict_world) ?hits = [demo_hit, pear_hit, anonymous_hit]"
    by (simp add: recoverable_def hit_payload_def decoded_embedding_def numpy_strict_world_def
          demo_world_def demo_hit_def pear_hit_def ragged_hit_def anonymous_hit_def)
  have ids: "map hit_id [demo_hit, pear_hit, anonymous_hit] = [PStr ''a'', PNone, PNone]"
    by (simp add: hit_id_def hit_payload_def demo_hit_def pear_hit_def anonymous_hit_def)
  have cs: "map hit_content [demo_hit, pear_hit, anonymous_hit] =
              [PStr ''apple'', PStr ''pear'', PStr ''fig'']"
    by (simp add: hit_content_def hit_payload_def demo_hit_def pear_hit_def anonymous_hit_def)
  have es: "map (hit_embedding numpy_strict_world) [demo_hit, pear_hit, anonymous_hit] =
              [NdArray (PList [PFloat 1, PFloat 0, PFloat 0]), Plain PNone,
               NdArray (PList [PFloat 0, PFloat 1])]"
    by (simp add: hit_embedding_def hit_payload_def decoded_embedding_def numpy_strict_world_def
          demo_world_def demo_hit_def pear_hit_def anonymous_hit_def)
  from C3_only_undecodable_hits_are_skipped [OF dicts, of numpy_strict_world]
  show ?thesis unfolding kept ids cs es .
qed

text \<open>
  C9, as stated, fails: a hit without a distance still gives a document whose metadata
  has the reserved key \<open>vector_distance\<close>, with the value \<open>None\<close>. (The same run shows that
  a field of the hit beside its document, here \<open>text_match\<close>, is not copied, and that an
  empty embedding is left unset.)
\<close>

theorem C9_distance_key_without_distance:
  "py_get plain_hit ''vector_distance'' (PStr ''absent'') = Inr (PStr ''absent'')
   \<and> TypesenseSearch_process_results demo_world (PDict [(''hits'', PList [plain_hit])]) =
       Inr [\<lparr>doc_id = PStr ''b'', content = PStr ''banana'',
             meta_data = PDict [(''vector_distance'', PNone), (''embedding'', PList [])],
             embedding = Plain PNone\<rparr>]"
  by (simp add: TypesenseSearch_process_results_def plain_hit_def process_hit_def
        other_fields_def demo_world_def)

text \<open>
  C9, as the code has it. For a hit and its document, a mapping with distinct keys, the
  normalizer takes \<open>id\<close> and \<open>content\<close> from the document (\<open>None\<close> and the empty string
  when absent). The metadata holds every field of the document except \<open>id\<close> and
  \<open>content\<close>, unchanged, and always the key \<open>vector_distance\<close>: with the distance of the
  hit, or \<open>None\<close> when the hit has none, unless the document has a field of that name,
  which then stands there. The embedding is decoded into an array when the document has
  a non-empty one, and is left unset otherwise.
\<close>

theorem C9_process_hit_fields:
  assumes "distinct (map fst dkvs)"
      and "\<forall>e. map_of dkvs ''embedding'' = Some e \<and> truthy e \<longrightarrow> np_array w e = Inr (NdArray e)"
  shows "\<exists>md. process_hit w (PDict hkvs) (PDict dkvs) =
            Inr \<lparr>doc_id = (case map_of dkvs ''id'' of Some v \<Rightarrow> v | None \<Rightarrow> PNone),
                 content = (case map_of dkvs ''content'' of Some v \<Rightarrow> v | None \<Rightarrow> PStr []),
                 meta_data = PDict md,
                 embedding = (case map_of dkvs ''embedding'' of
                                Some e \<Rightarrow> if truthy e then NdArray e else Plain PNone
                              | None \<Rightarrow> Plain PNone)\<rparr>
          \<and> distinct (map fst md)
          \<and> (\<forall>k. map_of md k =
                (if k \<noteq> ''id'' \<and> k \<noteq> ''content'' \<and> map_of dkvs k \<noteq> None then map_of dkvs k
                 else if k = ''vector_distance''
                 then Some (case map_of hkvs ''vector_distance'' of Some v \<Rightarrow> v | None \<Rightarrow> PNone)
                 else None))"
proof -
  define vd where "vd = (case map_of hkvs ''vector_distance'' of Some v \<Rightarrow> v | None \<Rightarrow> PNone)"
  define md where "md = dict_update_all [(''vector_distance'', vd)] (other_fields dkvs)"
  have emb: "(if truthy e then np_array w e else Inr (Plain PNone)) =
             Inr (if truthy e then NdArray e else Plain PNone)"
    if "map_of dkvs ''embedding'' = Some e" for e
    using assms(2) that by auto
  have run: "process_hit w (PDict hkvs) (PDict dkvs) =
            Inr \<lparr>doc_id = (case map_of dkvs ''id'' of Some v \<Rightarrow> v | None \<Rightarrow> PNone),
                 content = (case map_of dkvs ''content'' of Some v \<Rightarrow> v | None \<Rightarrow> PStr []),
                 meta_data = PDict md,
                 embedding = (case map_of dkvs ''embedding'' of
                                Some e \<Rightarrow> if truthy e then NdArray e else Plain PNone
                              | None \<Rightarrow> Plain PNone)\<rparr>"
    by (cases "map_of dkvs ''embedding''") (simp_all add: process_hit_def md_def vd_def emb)
  have d: "distinct (map fst md)"
    unfolding md_def by (rule distinct_other_fields) simp
  have dof: "distinct (map fst (other_fields dkvs))"
    unfolding other_fields_def by (rule distinct_other_fields) simp
  have look: "map_of md k =
                (if k \<noteq> ''id'' \<and> k \<noteq> ''content'' \<and> map_of dkvs k \<noteq> None then map_of dkvs k
                 else if k = ''vector_distance'' then Some vd else None)" for k
    unfolding md_def map_of_dict_update_all [OF dof] map_of_other_fields [OF assms(1)]
    by (auto split: option.splits)
  from run d look show ?thesis unfolding vd_def by blast
qed

text \<open>The hit of the reference server: distance 0, embedding decoded, no \<open>id\<close> in the metadata.\<close>

theorem C9_process_hit_fields_witness:
  "\<exists>md. process_hit demo_world demo_hit
           (PDict [(''id'', PStr ''a''), (''content'', PStr ''apple''),
                   (''embedding'', PList [PFloat 1, PFloat 0, PFloat 0])]) =
          Inr \<lparr>doc_id = PStr ''a'', content = PStr ''apple'', meta_data = PDict md,
               embedding = NdArray (PList [PFloat 1, PFloat 0, PFloat 0])\<rparr>
        \<and> map_of md ''vector_distance'' = Some (PFloat 0)
        \<and> map_of md ''embedding'' = Some (PList [PFloat 1, PFloat 0, PFloat 0])
        \<and> map_of md ''id'' = None"
proof -
  let ?dkvs = "[(''id'', PStr ''a''), (''content'', PStr ''apple''),
                (''embedding'', PList [PFloat 1, PFloat 0, PFloat 0])]"
  have d: "distinct (map fst ?dkvs)" by simp
  have e: "\<forall>e. map_of ?dkvs ''embedding'' = Some e \<and> truthy e \<longrightarrow> np_array demo_world e = Inr (NdArray e)"
    by (simp add: demo_world_def)
  from C9_process_hit_fields [OF d e, of "[(''document'', PDict ?dkvs), (''vector_distance'', PFloat 0)]"]
  obtain md where
    run: "process_hit demo_world
            (PDict [(''document'', PDict ?dkvs), (''vector_distance'', PFloat 0)]) (PDict ?dkvs) =
          Inr \<lparr>doc_id = PStr ''a'', content = PStr ''apple'', meta_data = PDict md,
               embedding = NdArray (PList [PFloat 1, PFloat 0, PFloat 0])\<rparr>"
    and look: "\<And>k. map_of md k =
                (if k \<noteq> ''id'' \<and> k \<noteq> ''content'' \<and> map_of ?dkvs k \<noteq> None then map_of ?dkvs k
                 else if k = ''vector_distance'' then Some (PFloat 0) else None)"
    by auto
  have "map_of md ''vector_distance'' = Some (PFloat 0)"
       "map_of md ''embedding'' = Some (PList [PFloat 1, PFloat 0, PFloat 0])"
       "map_of md ''id'' = None"
    by (simp_all add: look)
  with run show ?thesis by (auto simp: demo_hit_def)
qed

section \<open>Collection lifecycle (C5, C8)\<close>

text \<open>
  C5. \<open>create\<close> is idempotent. When the probe finds the collection, \<open>create\<close> only probes:
  it returns normally and sends no creation request, so no duplicate-collection error can
  arise; in particular a second \<open>create\<close>, after one that returned and with the collection
  then reported by the server, is such a no-op. When the probe does not find the collection,
  the schema of the adapter is submitted, which is the output of the schema builder, and
  an exception of that request is raised to the caller. An exception of the probe that is
  no client error is raised to the caller as well.
\<close>

theorem C5_create_idempotent:
  "(\<forall>r. respond w h (CollectionRetrieve (name self)) = Inr r \<longrightarrow>
        TypesenseDb_create w self h = (Inr (), h @ [CollectionRetrieve (name self)]))
 \<and> (\<forall>e. respond w h (CollectionRetrieve (name self)) = Inl e \<and> is_TypesenseClientError e \<longrightarrow>
        TypesenseDb_create w self h =
          (case respond w (h @ [CollectionRetrieve (name self)]) (CollectionsCreate (schema self)) of
             Inl e' \<Rightarrow> Inl e'
           | Inr r \<Rightarrow> Inr (),
           h @ [CollectionRetrieve (name self), CollectionsCreate (schema self)]))
 \<and> (\<forall>e. respond w h (CollectionRetrieve (name self)) = Inl e \<and> \<not> is_TypesenseClientError e \<longrightarrow>
        TypesenseDb_create w self h = (Inl e, h @ [CollectionRetrieve (name self)]))
 \<and> (\<forall>h1 r. TypesenseDb_create w self h = (Inr (), h1)
          \<and> respond w h1 (CollectionRetrieve (name self)) = Inr r \<longrightarrow>
        TypesenseDb_create w self h1 = (Inr (), h1 @ [CollectionRetrieve (name self)]))
 \<and> schema (TypesenseDb_init n d metric cfg st) =
      create_schema n d metric (Some (case cfg of Some c \<Rightarrow> c | None \<Rightarrow> HNSWConfig_default)) None"
proof -
  have found: "TypesenseDb_create w self g = (Inr (), g @ [CollectionRetrieve (name self)])"
    if "respond w g (CollectionRetrieve (name self)) = Inr r" for g r
    using that by (simp add: TypesenseDb_create_def TypesenseDb_exists_def)
  have absent: "TypesenseDb_create w self h =
          (case respond w (h @ [CollectionRetrieve (name self)]) (CollectionsCreate (schema self)) of
             Inl e' \<Rightarrow> Inl e'
           | Inr r \<Rightarrow> Inr (),
           h @ [CollectionRetrieve (name self), CollectionsCreate (schema self)])"
    if "respond w h (CollectionRetrieve (name self)) = Inl e" "is_TypesenseClientError e" for e
    using that
    by (cases "respond w (h @ [CollectionRetrieve (name self)]) (CollectionsCreate (schema self))")
       (simp_all add: TypesenseDb_create_def TypesenseDb_exists_def)
  have other: "TypesenseDb_create w self h = (Inl e, h @ [CollectionRetrieve (name self)])"
    if "respond w h (CollectionRetrieve (name self)) = Inl e" "\<not> is_TypesenseClientError e" for e
    using that by (simp add: TypesenseDb_create_def TypesenseDb_exists_def)
  have payload: "schema (TypesenseDb_init n d metric cfg st) =
      create_schema n d metric (Some (case cfg of Some c \<Rightarrow> c | None \<Rightarrow> HNSWConfig_default)) None"
    by (simp add: TypesenseDb_init_def Let_def)
  from found absent other payload show ?thesis by blast
qed

text \<open>
  On the reference server: the first \<open>create\<close> submits the schema, the second only probes;
  with the server unreachable the transport error reaches the caller.
\<close>

theorem C5_create_idempotent_witness:
  "TypesenseDb_create demo_world demo_db [] =
     (Inr (), [CollectionRetrieve ''docs'', CollectionsCreate (schema demo_db)])
 \<and> TypesenseDb_create demo_world demo_db
       [CollectionRetrieve ''docs'', CollectionsCreate (schema demo_db)] =
     (Inr (), [CollectionRetrieve ''docs'', CollectionsCreate (schema demo_db),
               CollectionRetrieve ''docs''])
 \<and> TypesenseDb_create down_world demo_db [] =
     (Inl (OtherException ''connection refused''), [CollectionRetrieve ''docs''])
 \<and> schema demo_db = create_schema ''docs'' 3 COSINE (Some HNSWConfig_default) None"
proof -
  have p0: "respond demo_world [] (CollectionRetrieve (name demo_db)) = Inl ObjectNotFound"
    by (simp add: demo_world_def demo_db_fields)
  have c0: "respond demo_world ([] @ [CollectionRetrieve (name demo_db)])
              (CollectionsCreate (schema demo_db)) = Inr (schema demo_db)"
    by (simp add: demo_world_def demo_db_fields)
  have p1: "respond demo_world [CollectionRetrieve ''docs'', CollectionsCreate (schema demo_db)]
              (CollectionRetrieve (name demo_db)) = Inr (PDict [(''name'', PStr ''docs'')])"
    by (simp add: demo_world_def demo_db_fields)
  have p2: "respond down_world [] (CollectionRetrieve (name demo_db)) =
              Inl (OtherException ''connection refused'')"
    by (simp add: down_world_def)
  have first: "TypesenseDb_create demo_world demo_db [] =
     (Inr (), [CollectionRetrieve ''docs'', CollectionsCreate (schema demo_db)])"
    using C5_create_idempotent [of demo_world "[]" demo_db] p0 c0 by (simp add: demo_db_fields)
  have second: "TypesenseDb_create demo_world demo_db
       [CollectionRetrieve ''docs'', CollectionsCreate (schema demo_db)] =
     (Inr (), [CollectionRetrieve ''docs'', CollectionsCreate (schema demo_db),
               CollectionRetrieve ''docs''])"
    using C5_create_idempotent [of demo_world "[]" demo_db] first p1 by (simp add: demo_db_fields)
  have down: "TypesenseDb_create down_world demo_db [] =
     (Inl (OtherException ''connection refused''), [CollectionRetrieve ''docs''])"
    using C5_create_idempotent [of down_world "[]" demo_db] p2 by (simp add: demo_db_fields)
  have payload: "schema demo_db = create_schema ''docs'' 3 COSINE (Some HNSWConfig_default) None"
    using C5_create_idempotent [of demo_world "[]" demo_db "''docs''" 3 COSINE None SearchType_hybrid]
    by (simp add: demo_db_def)
  from first second down payload show ?thesis by simp
qed

lemma TypesenseDb_exists_handler:
  "TypesenseDb_exists w (self\<lparr>handler := x\<rparr>) g = TypesenseDb_exists w self g"
  by (simp add: TypesenseDb_exists_def split: sum.splits)

lemma TypesenseDb_create_handler:
  "TypesenseDb_create w (self\<lparr>handler := x\<rparr>) g = TypesenseDb_create w self g"
  by (simp add: TypesenseDb_create_def TypesenseDb_exists_handler
        split: prod.splits sum.splits bool.splits)

lemma ensure_collection_handler:
  "ensure_collection w (self\<lparr>handler := x\<rparr>) g = ensure_collection w self g"
  by (simp add: ensure_collection_def TypesenseDb_exists_handler TypesenseDb_create_handler
        split: prod.splits sum.splits bool.splits)

lemma ensure_collection_probes:
  "\<exists>res g1. ensure_collection w self g = (res, g1) \<and> prefix (g @ [CollectionRetrieve (name self)]) g1"
  by (auto simp: ensure_collection_def TypesenseDb_create_def TypesenseDb_exists_def prefix_def
      split: sum.splits bool.splits prod.splits)

text \<open>
  C8, as the code has it. When the probe finds the collection and the deletion succeeds,
  \<open>drop\<close> has sent the deletion request and has reset the cached search handle; when the
  deletion raises, \<open>drop\<close> raises and the handle stays. When the probe reports that the
  collection does not exist, \<open>drop\<close> returns normally, without a deletion request and
  without touching the cached handle. After the reset the handle is reconstructed on the
  next use: \<open>search_handler\<close> probes the server again and, whenever the collection is
  found or can be created, returns a new handle for the collection and caches it; when
  ensuring the collection raises, it raises and caches nothing. A cached handle is
  answered without a request.
\<close>

theorem C8_drop:
  "(\<forall>r r'. respond w h (CollectionRetrieve (name self)) = Inr r
          \<and> respond w (h @ [CollectionRetrieve (name self)]) (CollectionDelete (name self)) = Inr r'
        \<longrightarrow> TypesenseDb_drop w self h =
              (Inr (), self\<lparr>handler := None\<rparr>,
               h @ [CollectionRetrieve (name self), CollectionDelete (name self)]))
 \<and> (\<forall>r e. respond w h (CollectionRetrieve (name self)) = Inr r
          \<and> respond w (h @ [CollectionRetrieve (name self)]) (CollectionDelete (name self)) = Inl e
        \<longrightarrow> TypesenseDb_drop w self h =
              (Inl e, self, h @ [CollectionRetrieve (name self), CollectionDelete (name self)]))
 \<and> (\<forall>e. respond w h (CollectionRetrieve (name self)) = Inl e \<and> is_TypesenseClientError e
        \<longrightarrow> TypesenseDb_drop w self h = (Inr (), self, h @ [CollectionRetrieve (name self)]))
 \<and> (\<forall>g r. respond w g (CollectionRetrieve (name self)) = Inr r
        \<longrightarrow> TypesenseDb_search_handler w (self\<lparr>handler := None\<rparr>) g =
              (Inr \<lparr>collection = name self\<rparr>,
               self\<lparr>handler := Some \<lparr>collection = name self\<rparr>\<rparr>,
               g @ [CollectionRetrieve (name self)]))
 \<and> (\<forall>g u g1. ensure_collection w self g = (Inr u, g1)
        \<longrightarrow> TypesenseDb_search_handler w (self\<lparr>handler := None\<rparr>) g =
              (Inr \<lparr>collection = name self\<rparr>,
               self\<lparr>handler := Some \<lparr>collection = name self\<rparr>\<rparr>, g1)
          \<and> prefix (g @ [CollectionRetrieve (name self)]) g1)
 \<and> (\<forall>g e g1. ensure_collection w self g = (Inl e, g1)
        \<longrightarrow> TypesenseDb_search_handler w (self\<lparr>handler := None\<rparr>) g =
              (Inl e, self\<lparr>handler := None\<rparr>, g1))
 \<and> (\<forall>g s. handler self = Some s
        \<longrightarrow> TypesenseDb_search_handler w self g = (Inr s, self, g))"
proof -
  have deleted: "TypesenseDb_drop w self h =
              (Inr (), self\<lparr>handler := None\<rparr>,
               h @ [CollectionRetrieve (name self), CollectionDelete (name self)])"
    if "respond w h (CollectionRetrieve (name self)) = Inr r"
       "respond w (h @ [CollectionRetrieve (name self)]) (CollectionDelete (name self)) = Inr r'"
    for r r'
    using that by (simp add: TypesenseDb_drop_def TypesenseDb_exists_def)
  have failed: "TypesenseDb_drop w self h =
              (Inl e, self, h @ [CollectionRetrieve (name self), CollectionDelete (name self)])"
    if "respond w h (CollectionRetrieve (name self)) = Inr r"
       "respond w (h @ [CollectionRetrieve (name self)]) (CollectionDelete (name self)) = Inl e"
    for r e
    using that by (simp add: TypesenseDb_drop_def TypesenseDb_exists_def)
  have absent: "TypesenseDb_drop w self h = (Inr (), self, h @ [CollectionRetrieve (name self)])"
    if "respond w h (CollectionRetrieve (name self)) = Inl e" "is_TypesenseClientError e" for e
    using that by (simp add: TypesenseDb_drop_def TypesenseDb_exists_def)
  have found: "TypesenseDb_search_handler w (self\<lparr>handler := None\<rparr>) g =
              (Inr \<lparr>collection = name self\<rparr>,
               self\<lparr>handler := Some \<lparr>collection = name self\<rparr>\<rparr>,
               g @ [CollectionRetrieve (name self)])"
    if "respond w g (CollectionRetrieve (name self)) = Inr r" for g r
    using that
    by (simp add: TypesenseDb_search_handler_def ensure_collection_def TypesenseDb_exists_def)
  have rebuilt: "TypesenseDb_search_handler w (self\<lparr>handler := None\<rparr>) g =
              (Inr \<lparr>collection = name self\<rparr>,
               self\<lparr>handler := Some \<lparr>collection = name self\<rparr>\<rparr>, g1)
          \<and> prefix (g @ [CollectionRetrieve (name self)]) g1"
    if "ensure_collection w self g = (Inr u, g1)" for g u g1
    using that ensure_collection_probes [of w self g]
    by (simp add: TypesenseDb_search_handler_def ensure_collection_handler)
  have raised: "TypesenseDb_search_handler w (self\<lparr>handler := None\<rparr>) g =
              (Inl e, self\<lparr>handler := None\<rparr>, g1)"
    if "ensure_collection w self g = (Inl e, g1)" for g e g1
    using that by (simp add: TypesenseDb_search_handler_def ensure_collection_handler)
  have cached: "TypesenseDb_search_handler w self g = (Inr s, self, g)"
    if "handler self = Some s" for g s
    using that by (simp add: TypesenseDb_search_handler_def)
  from deleted failed absent found rebuilt raised cached show ?thesis by blast
qed

text \<open>
  C8, as stated, fails when the collection does not exist: \<open>drop\<close> is a success, but the
  cached handle is not invalidated, and the next use answers from the cache without
  reconstructing it.
\<close>

theorem C8_missing_collection_keeps_handle:
  "TypesenseDb_drop demo_world cached_db [] = (Inr (), cached_db, [CollectionRetrieve ''docs''])
 \<and> handler cached_db = Some \<lparr>collection = ''docs''\<rparr>
 \<and> TypesenseDb_search_handler demo_world cached_db [CollectionRetrieve ''docs''] =
     (Inr \<lparr>collection = ''docs''\<rparr>, cached_db, [CollectionRetrieve ''docs''])"
  by (simp add: TypesenseDb_drop_def TypesenseDb_exists_def TypesenseDb_search_handler_def
        demo_world_def cached_db_fields)
     (simp add: cached_db_def)

text \<open>
  On the reference server: dropping an existing collection resets the handle, and the
  next use probes, creates the collection again and caches a new handle; with the
  collection there the next use only probes; dropping a missing collection is a success
  that keeps the handle; with the server unreachable \<open>drop\<close> raises.
\<close>

theorem C8_drop_witness:
  "TypesenseDb_drop demo_world cached_db [CollectionsCreate (schema demo_db)] =
     (Inr (), demo_db,
      [CollectionsCreate (schema demo_db), CollectionRetrieve ''docs'', CollectionDelete ''docs''])
 \<and> TypesenseDb_search_handler demo_world demo_db
       [CollectionsCreate (schema demo_db), CollectionRetrieve ''docs'', CollectionDelete ''docs''] =
     (Inr \<lparr>collection = ''docs''\<rparr>, cached_db,
      [CollectionsCreate (schema demo_db), CollectionRetrieve ''docs'', CollectionDelete ''docs'',
       CollectionRetrieve ''docs'', CollectionRetrieve ''docs'', CollectionsCreate (schema demo_db)])
 \<and> TypesenseDb_search_handler demo_world demo_db [CollectionsCreate (schema demo_db)] =
     (Inr \<lparr>collection = ''docs''\<rparr>, cached_db,
      [CollectionsCreate (schema demo_db), CollectionRetrieve ''docs''])
 \<and> TypesenseDb_drop demo_world cached_db [] = (Inr (), cached_db, [CollectionRetrieve ''docs''])
 \<and> TypesenseDb_drop down_world cached_db [] =
     (Inl (OtherException ''connection refused''), cached_db, [CollectionRetrieve ''docs''])"
proof -
  let ?h = "[CollectionsCreate (schema demo_db)]"
  let ?h3 = "[CollectionsCreate (schema demo_db), CollectionRetrieve ''docs'', CollectionDelete ''docs'']"
  have cd: "cached_db\<lparr>handler := Some \<lparr>collection = ''docs''\<rparr>\<rparr> = cached_db"
    by (simp add: cached_db_def)
  have p: "respond demo_world ?h (CollectionRetrieve (name cached_db)) =
             Inr (PDict [(''name'', PStr ''docs'')])"
    by (simp add: demo_world_def demo_db_fields cached_db_fields)
  have d: "respond demo_world (?h @ [CollectionRetrieve (name cached_db)])
             (CollectionDelete (name cached_db)) = Inr (PDict [(''name'', PStr ''docs'')])"
    by (simp add: demo_world_def demo_db_fields cached_db_fields)
  have q: "respond demo_world [] (CollectionRetrieve (name cached_db)) = Inl ObjectNotFound"
    by (simp add: demo_world_def cached_db_fields)
  have sc: "schema cached_db = schema demo_db" by (simp add: cached_db_def)
  have en: "ensure_collection demo_world cached_db ?h3 =
              (Inr (), ?h3 @ [CollectionRetrieve ''docs'', CollectionRetrieve ''docs'',
                              CollectionsCreate (schema demo_db)])"
    by (simp add: ensure_collection_def TypesenseDb_create_def TypesenseDb_exists_def
          demo_world_def demo_db_fields cached_db_fields sc)
  have a: "TypesenseDb_drop demo_world cached_db ?h = (Inr (), demo_db, ?h3)"
    using C8_drop [of demo_world ?h cached_db] p d by (simp add: cached_db_fields)
  have b: "TypesenseDb_search_handler demo_world demo_db ?h3 =
     (Inr \<lparr>collection = ''docs''\<rparr>, cached_db,
      ?h3 @ [CollectionRetrieve ''docs'', CollectionRetrieve ''docs'',
             CollectionsCreate (schema demo_db)])"
    using C8_drop [of demo_world ?h cached_db] en by (simp add: cached_db_fields cd)
  have c: "TypesenseDb_search_handler demo_world demo_db ?h =
     (Inr \<lparr>collection = ''docs''\<rparr>, cached_db, ?h @ [CollectionRetrieve ''docs''])"
    using C8_drop [of demo_world ?h cached_db] p by (simp add: cached_db_fields cd)
  have e: "TypesenseDb_drop demo_world cached_db [] = (Inr (), cached_db, [CollectionRetrieve ''docs''])"
    using C8_drop [of demo_world "[]" cached_db] q by (simp add: cached_db_fields)
  have f: "TypesenseDb_drop down_world cached_db [] =
     (Inl (OtherException ''connection refused''), cached_db, [CollectionRetrieve ''docs''])"
    by (simp add: TypesenseDb_drop_def TypesenseDb_exists_def down_world_def cached_db_fields)
  from a b c e f show ?thesis by simp
qed

section \<open>The schema builder (C6)\<close>

text \<open>
  C6. For every descriptor, the schema has exactly the four baseline fields, \<open>id\<close> and
  \<open>content\<close> as strings, \<open>meta_data\<close> as an object and the embedding field, followed by
  the caller's extra fields as they are. The embedding field is a float array whose
  \<open>num_dim\<close> is the dimension of the descriptor and whose \<open>vec_dist\<close> is the name of the
  chosen metric: \<open>cosine\<close>, \<open>euclidean\<close> or \<open>dot_product\<close>. The index parameters, when
  given, are the only further entry of the embedding field.
\<close>

theorem C6_create_schema_fields:
  "create_schema n d metric cfg extra =
     PDict [(''name'', PStr n),
            (''enable_nested_fields'', PBool True),
            (''fields'',
               PList ([PDict [(''name'', PStr ''id''), (''type'', PStr ''string'')],
                       PDict [(''name'', PStr ''content''), (''type'', PStr ''string'')],
                       PDict [(''name'', PStr ''meta_data''), (''type'', PStr ''object'')],
                       PDict ([(''name'', PStr ''embedding''),
                               (''type'', PStr ''float[]''),
                               (''num_dim'', PInt d),
                               (''vec_dist'',
                                  PStr (case metric of
                                          COSINE \<Rightarrow> ''cosine''
                                        | EUCLIDEAN \<Rightarrow> ''euclidean''
                                        | DOT_PRODUCT \<Rightarrow> ''dot_product''))]
                              @ (case cfg of
                                   None \<Rightarrow> []
                                 | Some c \<Rightarrow>
                                     [(''hnsw_params'',
                                       PDict [(''M'', PInt (hnsw_m c)),
                                              (''ef_construction'', PInt (ef_construction c))])]))]
                      @ (case extra of None \<Rightarrow> [] | Some fs \<Rightarrow> fs)))]"
  by (cases metric; cases cfg; cases extra)
     (simp_all add: create_schema_def embedding_field_def Let_def)

text \<open>One schema for each metric: with an extra field, with index parameters, and bare.\<close>

theorem C6_create_schema_fields_witness:
  "create_schema ''docs'' 3 EUCLIDEAN None
     (Some [PDict [(''name'', PStr ''lang''), (''type'', PStr ''string'')]]) =
   PDict [(''name'', PStr ''docs''),
          (''enable_nested_fields'', PBool True),
          (''fields'',
             PList [PDict [(''name'', PStr ''id''), (''type'', PStr ''string'')],
                    PDict [(''name'', PStr ''content''), (''type'', PStr ''string'')],
                    PDict [(''name'', PStr ''meta_data''), (''type'', PStr ''object'')],
                    PDict [(''name'', PStr ''embedding''), (''type'', PStr ''float[]''),
                           (''num_dim'', PInt 3), (''vec_dist'', PStr ''euclidean'')],
                    PDict [(''name'', PStr ''lang''), (''type'', PStr ''string'')]])]
 \<and> create_schema ''v'' 512 DOT_PRODUCT (Some HNSWConfig_default) None =
   PDict [(''name'', PStr ''v''),
          (''enable_nested_fields'', PBool True),
          (''fields'',
             PList [PDict [(''name'', PStr ''id''), (''type'', PStr ''string'')],
                    PDict [(''name'', PStr ''content''), (''type'', PStr ''string'')],
                    PDict [(''name'', PStr ''meta_data''), (''type'', PStr ''object'')],
                    PDict [(''name'', PStr ''embedding''), (''type'', PStr ''float[]''),
                           (''num_dim'', PInt 512), (''vec_dist'', PStr ''dot_product''),
                           (''hnsw_params'',
                              PDict [(''M'', PInt 16), (''ef_construction'', PInt 100)])]])]
 \<and> create_schema ''c'' 1 COSINE None None =
   PDict [(''name'', PStr ''c''),
          (''enable_nested_fields'', PBool True),
          (''fields'',
             PList [PDict [(''name'', PStr ''id''), (''type'', PStr ''string'')],
                    PDict [(''name'', PStr ''content''), (''type'', PStr ''string'')],
                    PDict [(''name'', PStr ''meta_data''), (''type'', PStr ''object'')],
                    PDict [(''name'', PStr ''embedding''), (''type'', PStr ''float[]''),
                           (''num_dim'', PInt 1), (''vec_dist'', PStr ''cosine'')]])]"
  using C6_create_schema_fields [of "''docs''" 3 EUCLIDEAN None
      "Some [PDict [(''name'', PStr ''lang''), (''type'', PStr ''string'')]]"]
    C6_create_schema_fields [of "''v''" 512 DOT_PRODUCT "Some HNSWConfig_default" None]
    C6_create_schema_fields [of "''c''" 1 COSINE None None]
  by (simp add: HNSWConfig_default_def)

section \<open>The filter compiler (C7)\<close>

lemma filter_parts_loop_map:
  "filter_parts_loop other items acc = acc @ map (\<lambda>(field, v). filter_part other field v) items"
  by (induction other items acc rule: filter_parts_loop.induct) simp_all

lemma filter_part_render:
  "filter_part other field v =
     render_predicate other (case v of PList xs \<Rightarrow> Membership field xs
                                     | PTuple xs \<Rightarrow> Membership field xs
                                     | _ \<Rightarrow> Equality field v)"
  by (cases v) (simp_all add: filter_part_def)

lemma build_filter_string_render:
  "build_filter_string other (PDict kvs) = Inr (render_conjunction other (compileFilters_spec kvs))"
proof -
  have "map (\<lambda>(field, v). filter_part other field v) kvs =
        map (render_predicate other) (compileFilters_spec kvs)"
    by (induction kvs) (auto simp: compileFilters_spec_def filter_part_render)
  then show ?thesis
    by (simp add: build_filter_string_def filter_parts_loop_map render_conjunction_def)
qed

lemma apply_filters_absent:
  "filters = PNone \<or> filters = PDict [] \<Longrightarrow> apply_filters w filters search = Inr search"
  by (auto simp: apply_filters_def)

lemma apply_filters_dict:
  "kvs \<noteq> [] \<Longrightarrow> apply_filters w (PDict kvs) search =
     Inr (AList.update ''filter_by''
            (PStr (render_conjunction (str_other w) (compileFilters_spec kvs))) search)"
  by (simp add: apply_filters_def build_filter_string_render)

text \<open>
  C7. In each of the three requests (given a query vector that can be iterated), an
  absent or empty filter mapping leaves the request without a \<open>filter_by\<close> clause. For a
  non-empty mapping, \<open>build_filter_string\<close> returns the conjunction, in the order of the
  mapping, of an equality predicate for each scalar value and a membership predicate for
  each list value, and that string is the \<open>filter_by\<close> clause of the request.
\<close>

theorem C7_filter_clause:
  assumes "py_len qv = Inr n" and "py_iter qv = Inr vs"
  shows "(filters = PNone \<or> filters = PDict [] \<longrightarrow>
            (\<exists>search. vector_search_request w s qv limit filters =
                         Inr (PDict [(''searches'', PList [PDict search])])
                     \<and> map_of search ''filter_by'' = None)
          \<and> (\<exists>search. keyword_search_params w q limit filters = Inr (PDict search)
                     \<and> map_of search ''filter_by'' = None)
          \<and> (\<exists>search. hybrid_search_request w s q qv limit filters =
                         Inr (PDict [(''searches'', PList [PDict search])])
                     \<and> map_of search ''filter_by'' = None))
       \<and> (\<forall>kvs. filters = PDict kvs \<and> kvs \<noteq> [] \<longrightarrow>
            build_filter_string (str_other w) filters =
              Inr (render_conjunction (str_other w) (compileFilters_spec kvs))
          \<and> (\<exists>search. vector_search_request w s qv limit filters =
                         Inr (PDict [(''searches'', PList [PDict search])])
                     \<and> map_of search ''filter_by'' =
                         Some (PStr (render_conjunction (str_other w) (compileFilters_spec kvs))))
          \<and> (\<exists>search. keyword_search_params w q limit filters = Inr (PDict search)
                     \<and> map_of search ''filter_by'' =
                         Some (PStr (render_conjunction (str_other w) (compileFilters_spec kvs))))
          \<and> (\<exists>search. hybrid_search_request w s q qv limit filters =
                         Inr (PDict [(''searches'', PList [PDict search])])
                     \<and> map_of search ''filter_by'' =
                         Some (PStr (render_conjunction (str_other w) (compileFilters_spec kvs)))))"
proof -
  have absent: "filters = PNone \<or> filters = PDict [] \<Longrightarrow>
      (\<exists>search. vector_search_request w s qv limit filters =
                         Inr (PDict [(''searches'', PList [PDict search])])
                     \<and> map_of search ''filter_by'' = None)
          \<and> (\<exists>search. keyword_search_params w q limit filters = Inr (PDict search)
                     \<and> map_of search ''filter_by'' = None)
          \<and> (\<exists>search. hybrid_search_request w s q qv limit filters =
                         Inr (PDict [(''searches'', PList [PDict search])])
                     \<and> map_of search ''filter_by'' = None)"
    using assms
    by (simp add: vector_search_request_def keyword_search_params_def hybrid_search_request_def
          apply_filters_absent)
  have present: "build_filter_string (str_other w) filters =
              Inr (render_conjunction (str_other w) (compileFilters_spec kvs))
          \<and> (\<exists>search. vector_search_request w s qv limit filters =
                         Inr (PDict [(''searches'', PList [PDict search])])
                     \<and> map_of search ''filter_by'' =
                         Some (PStr (render_conjunction (str_other w) (compileFilters_spec kvs))))
          \<and> (\<exists>search. keyword_search_params w q limit filters = Inr (PDict search)
                     \<and> map_of search ''filter_by'' =
                         Some (PStr (render_conjunction (str_other w) (compileFilters_spec kvs))))
          \<and> (\<exists>search. hybrid_search_request w s q qv limit filters =
                         Inr (PDict [(''searches'', PList [PDict search])])
                     \<and> map_of search ''filter_by'' =
                         Some (PStr (render_conjunction (str_other w) (compileFilters_spec kvs))))"
    if "filters = PDict kvs" "kvs \<noteq> []" for kvs
    using assms that
    by (simp add: vector_search_request_def keyword_search_params_def hybrid_search_request_def
          apply_filters_dict build_filter_string_render update_conv')
  from absent present show ?thesis by blast
qed

text \<open>The mapping \<open>{a: 1, b: [2, 3]}\<close>, the empty mapping and \<open>None\<close>.\<close>

theorem C7_filter_clause_witness:
  "build_filter_string (str_other demo_world)
     (PDict [(''a'', PInt 1), (''b'', PList [PInt 2, PInt 3])]) = Inr ''a:=1 && b:=[2,3]''
   \<and> compileFilters_spec [(''a'', PInt 1), (''b'', PList [PInt 2, PInt 3])] =
       [Equality ''a'' (PInt 1), Membership ''b'' [PInt 2, PInt 3]]
   \<and> (\<exists>search. keyword_search_params demo_world ''banana'' 5
                  (PDict [(''a'', PInt 1), (''b'', PList [PInt 2, PInt 3])]) = Inr (PDict search)
              \<and> map_of search ''filter_by'' = Some (PStr ''a:=1 && b:=[2,3]''))
   \<and> (\<exists>search. keyword_search_params demo_world ''banana'' 5 (PDict []) = Inr (PDict search)
              \<and> map_of search ''filter_by'' = None)
   \<and> (\<exists>search. keyword_search_params demo_world ''banana'' 5 PNone = Inr (PDict search)
              \<and> map_of search ''filter_by'' = None)"
proof -
  let ?f = "PDict [(''a'', PInt 1), (''b'', PList [PInt 2, PInt 3])]"
  have len: "py_len (PList [PFloat 1]) = Inr 1" and it: "py_iter (PList [PFloat 1]) = Inr [PFloat 1]"
    by simp_all
  have r: "render_conjunction (str_other demo_world)
             [Equality ''a'' (PInt 1), Membership ''b'' [PInt 2, PInt 3]] = ''a:=1 && b:=[2,3]''"
    by (simp add: render_conjunction_def show_int_1)
  have c: "compileFilters_spec [(''a'', PInt 1), (''b'', PList [PInt 2, PInt 3])] =
       [Equality ''a'' (PInt 1), Membership ''b'' [PInt 2, PInt 3]]"
    by (simp add: compileFilters_spec_def)
  from C7_filter_clause [OF len it, of ?f demo_world "\<lparr>collection = ''docs''\<rparr>" 5 "''banana''"]
       C7_filter_clause [OF len it, of "PDict []" demo_world "\<lparr>collection = ''docs''\<rparr>" 5 "''banana''"]
       C7_filter_clause [OF len it, of PNone demo_world "\<lparr>collection = ''docs''\<rparr>" 5 "''banana''"]
  show ?thesis by (simp add: r c)
qed

section \<open>insert (C1, C4, C10)\<close>

subsection \<open>The submission loop\<close>

lemma insert_documents_history:
  "snd (insert_documents w n ds acc h) = h @ map (DocumentsCreate n) ds"
  by (induction ds arbitrary: acc h) (auto split: sum.splits)

lemma insert_documents_results:
  "fst (insert_documents w n ds acc h) =
     acc @ map (\<lambda>i. outcome_of w n (h @ map (DocumentsCreate n) (take i ds)) (ds ! i)) [0..<length ds]"
proof (induction ds arbitrary: acc h)
  case Nil
  then show ?case by simp
next
  case (Cons d ds)
  have step: "fst (insert_documents w n (d # ds) acc h) =
      fst (insert_documents w n ds (acc @ [outcome_of w n h d]) (h @ [DocumentsCreate n d]))"
    by (cases "respond w h (DocumentsCreate n d)") (simp_all add: outcome_of_def)
  have shift: "map (\<lambda>i. outcome_of w n (h @ map (DocumentsCreate n) (take i (d # ds))) ((d # ds) ! i))
                 [0..<length (d # ds)] =
               outcome_of w n h d #
               map (\<lambda>i. outcome_of w n ((h @ [DocumentsCreate n d]) @ map (DocumentsCreate n) (take i ds)) (ds ! i))
                 [0..<length ds]"
    by (simp add: map_upt_Suc del: upt_Suc)
  show ?case unfolding step Cons.IH shift by simp
qed

subsection \<open>The preparation loop\<close>

lemma generate_embedding_effect:
  assumes "generate_embedding w r hp h = (Inr u, hp1, h1)"
  shows "(if embedding (hp r) = Plain PNone \<and> truthy (content (hp r))
          then \<exists>v. get_embedding w h (content (hp r)) = Inr v \<and> v \<noteq> Plain PNone
                 \<and> hp1 = hp(r := (hp r)\<lparr>embedding := v\<rparr>)
                 \<and> h1 = h @ [GetEmbedding (content (hp r))]
          else hp1 = hp \<and> h1 = h)"
proof (cases "embedding (hp r) = Plain PNone \<and> truthy (content (hp r))")
  case True
  then obtain v where v: "get_embedding w h (content (hp r)) = Inr v"
    using assms by (cases "get_embedding w h (content (hp r))") (auto simp: generate_embedding_def)
  have "emb_len v \<noteq> Inl TypeError" and "hp1 = hp(r := (hp r)\<lparr>embedding := v\<rparr>)"
    and "h1 = h @ [GetEmbedding (content (hp r))]"
    using assms True v by (cases "emb_len v"; auto simp: generate_embedding_def)+
  moreover from \<open>emb_len v \<noteq> Inl TypeError\<close> have "v \<noteq> Plain PNone" by auto
  ultimately show ?thesis using True v by simp
next
  case False
  then show ?thesis using assms by (auto simp: generate_embedding_def)
qed

lemma prepare_document_effect:
  assumes "prepare_document w r hp h = (Inr d, hp1, h1)"
  shows "embeddings_written w hp h hp1 h1 \<and> embedding (hp1 r) \<noteq> Plain PNone
       \<and> (\<exists>hs. h1 = h @ hs \<and> (\<forall>c \<in> set hs. \<not> is_DocumentsCreate c))"
proof -
  from assms obtain c50 where "py_slice50 (content (hp r)) = Inr c50"
    by (cases "py_slice50 (content (hp r))") (auto simp: prepare_document_def)
  with assms obtain u hpg hg where g: "generate_embedding w r hp h = (Inr u, hpg, hg)"
    by (cases "generate_embedding w r hp h"; cases "fst (generate_embedding w r hp h)")
       (auto simp: prepare_document_def)
  from assms g \<open>py_slice50 (content (hp r)) = Inr c50\<close>
  obtain n where len: "py_len (tolist_if_ndarray (embedding (hpg r))) = Inr n"
    by (cases "py_len (tolist_if_ndarray (embedding (hpg r)))") (auto simp: prepare_document_def)
  have hp1: "hp1 = hpg" and h1: "h1 = snd (id_or_uuid w (doc_id (hpg r)) hg)"
    using assms g len \<open>py_slice50 (content (hp r)) = Inr c50\<close>
    by (auto simp: prepare_document_def split: prod.splits)
  have nonnone: "embedding (hpg r) \<noteq> Plain PNone"
    using len by auto
  have uu: "\<exists>us. h1 = hg @ us \<and> (\<forall>c \<in> set us. \<not> is_DocumentsCreate c)"
    unfolding h1 by (simp add: id_or_uuid_def)
  then obtain us where us: "h1 = hg @ us" "\<forall>c \<in> set us. \<not> is_DocumentsCreate c" by blast
  show ?thesis
  proof (cases "embedding (hp r) = Plain PNone \<and> truthy (content (hp r))")
    case True
    with generate_embedding_effect [OF g] obtain v where
      v: "get_embedding w h (content (hp r)) = Inr v" "v \<noteq> Plain PNone"
         "hpg = hp(r := (hp r)\<lparr>embedding := v\<rparr>)" "hg = h @ [GetEmbedding (content (hp r))]"
      by auto
    have "embeddings_written w hp h hp1 h1"
      unfolding embeddings_written_def
    proof (intro conjI allI)
      show "prefix h h1" by (simp add: us v)
    next
      fix q :: nat
      show "hp1 q = hp q \<or>
          (embedding (hp q) = Plain PNone \<and> truthy (content (hp q)) \<and>
           (\<exists>g v. prefix h g \<and> prefix (g @ [GetEmbedding (content (hp q))]) h1 \<and>
                  get_embedding w g (content (hp q)) = Inr v \<and> v \<noteq> Plain PNone \<and>
                  hp1 q = (hp q)\<lparr>embedding := v\<rparr>))"
      proof (cases "q = r")
        case True
        have "prefix h h \<and> prefix (h @ [GetEmbedding (content (hp r))]) h1 \<and>
                  get_embedding w h (content (hp r)) = Inr v \<and> v \<noteq> Plain PNone \<and>
                  hp1 r = (hp r)\<lparr>embedding := v\<rparr>"
          using v us by (simp add: hp1)
        then show ?thesis using True \<open>embedding (hp r) = Plain PNone \<and> truthy (content (hp r))\<close>
          by blast
      next
        case False
        then show ?thesis by (simp add: hp1 v)
      qed
    qed
    moreover have "\<exists>hs. h1 = h @ hs \<and> (\<forall>c \<in> set hs. \<not> is_DocumentsCreate c)"
      using us v by auto
    ultimately show ?thesis using nonnone hp1 by simp
  next
    case False
    with generate_embedding_effect [OF g] have same: "hpg = hp" "hg = h" by auto
    have "embeddings_written w hp h hp1 h1"
      unfolding embeddings_written_def by (simp add: hp1 same us)
    moreover have "\<exists>hs. h1 = h @ hs \<and> (\<forall>c \<in> set hs. \<not> is_DocumentsCreate c)"
      using us same by auto
    ultimately show ?thesis using nonnone hp1 by simp
  qed
qed

lemma embeddings_written_keeps:
  "embeddings_written w hp h hp' h' \<Longrightarrow> embedding (hp q) \<noteq> Plain PNone \<Longrightarrow> hp' q = hp q"
  unfolding embeddings_written_def by blast

lemma embeddings_written_refl: "embeddings_written w hp h hp h"
  unfolding embeddings_written_def by simp

lemma embeddings_written_trans:
  assumes a: "embeddings_written w hp h hp1 h1" and b: "embeddings_written w hp1 h1 hp2 h2"
  shows "embeddings_written w hp h hp2 h2"
  unfolding embeddings_written_def
proof (intro conjI allI)
  from a b show "prefix h h2" unfolding embeddings_written_def by (meson prefix_order.trans)
next
  fix q :: nat
  let ?W = "\<lambda>hpa ha hpb hb. embedding (hpa q) = Plain PNone \<and> truthy (content (hpa q)) \<and>
           (\<exists>g v. prefix ha g \<and> prefix (g @ [GetEmbedding (content (hpa q))]) hb \<and>
                  get_embedding w g (content (hpa q)) = Inr v \<and> v \<noteq> Plain PNone \<and>
                  hpb q = (hpa q)\<lparr>embedding := v\<rparr>)"
  from a have a': "hp1 q = hp q \<or> ?W hp h hp1 h1" and p1: "prefix h h1"
    unfolding embeddings_written_def by blast+
  from b have b': "hp2 q = hp1 q \<or> ?W hp1 h1 hp2 h2" and p2: "prefix h1 h2"
    unfolding embeddings_written_def by blast+
  show "hp2 q = hp q \<or> ?W hp h hp2 h2"
  proof (cases "hp1 q = hp q")
    case same1: True
    show ?thesis
    proof (cases "hp2 q = hp1 q")
      case True
      then show ?thesis using same1 by simp
    next
      case False
      with b' have "?W hp1 h1 hp2 h2" by blast
      then obtain g v where "prefix h1 g" "prefix (g @ [GetEmbedding (content (hp1 q))]) h2"
        "get_embedding w g (content (hp1 q)) = Inr v" "v \<noteq> Plain PNone"
        "hp2 q = (hp1 q)\<lparr>embedding := v\<rparr>" "embedding (hp1 q) = Plain PNone"
        "truthy (content (hp1 q))"
        by blast
      moreover from \<open>prefix h1 g\<close> p1 have "prefix h g" by (meson prefix_order.trans)
      ultimately show ?thesis unfolding same1 by blast
    qed
  next
    case False
    with a' have W: "?W hp h hp1 h1" by blast
    then obtain g v where gv: "prefix h g" "prefix (g @ [GetEmbedding (content (hp q))]) h1"
        "get_embedding w g (content (hp q)) = Inr v" "v \<noteq> Plain PNone"
        "hp1 q = (hp q)\<lparr>embedding := v\<rparr>"
      by blast
    from gv have "embedding (hp1 q) \<noteq> Plain PNone" by simp
    with b' have "hp2 q = hp1 q" by blast
    moreover from gv(2) p2 have "prefix (g @ [GetEmbedding (content (hp q))]) h2"
      by (meson prefix_order.trans)
    ultimately show ?thesis using W gv by auto
  qed
qed

lemma prepare_documents_effect:
  "prepare_documents w rs acc hp h = (Inr docs, hp', h') \<Longrightarrow>
     embeddings_written w hp h hp' h'
   \<and> (\<forall>r \<in> set rs. embedding (hp' r) \<noteq> Plain PNone)
   \<and> length docs = length acc + length rs
   \<and> (\<exists>hs. h' = h @ hs \<and> (\<forall>c \<in> set hs. \<not> is_DocumentsCreate c))"
proof (induction rs arbitrary: acc hp h)
  case Nil
  then show ?case by (simp add: embeddings_written_refl)
next
  case (Cons r rs)
  from Cons.prems obtain d hp1 h1 where
    one: "prepare_document w r hp h = (Inr d, hp1, h1)"
    and rest: "prepare_documents w rs (acc @ [d]) hp1 h1 = (Inr docs, hp', h')"
    by (cases "prepare_document w r hp h"; cases "fst (prepare_document w r hp h)") auto
  note e1 = prepare_document_effect [OF one]
  note e2 = Cons.IH [OF rest]
  have w: "embeddings_written w hp h hp' h'"
    using e1 e2 embeddings_written_trans by blast
  have "hp' r = hp1 r"
    using e1 e2 embeddings_written_keeps by blast
  then have r: "embedding (hp' r) \<noteq> Plain PNone" using e1 by simp
  have hs: "\<exists>hs. h' = h @ hs \<and> (\<forall>c \<in> set hs. \<not> is_DocumentsCreate c)"
  proof -
    from e1 obtain a where a: "h1 = h @ a" "\<forall>c \<in> set a. \<not> is_DocumentsCreate c" by blast
    from e2 obtain b where b: "h' = h1 @ b" "\<forall>c \<in> set b. \<not> is_DocumentsCreate c" by blast
    have "h' = h @ (a @ b) \<and> (\<forall>c \<in> set (a @ b). \<not> is_DocumentsCreate c)"
      using a b by auto
    then show ?thesis by blast
  qed
  from w r hs e2 show ?case by simp
qed

lemma prepare_documents_raises_history:
  "prepare_documents w rs acc hp h = (Inl e, hp', h') \<Longrightarrow>
     \<exists>hs. h' = h @ hs \<and> (\<forall>c \<in> set hs. \<not> is_DocumentsCreate c)"
proof (induction rs arbitrary: acc hp h)
  case Nil
  then show ?case by simp
next
  case (Cons r rs)
  show ?case
  proof (cases "fst (prepare_document w r hp h)")
    case (Inl e')
    then have "prepare_document w r hp h = (Inl e, hp', h')"
      using Cons.prems by (cases "prepare_document w r hp h") auto
    then have "\<exists>hs. h' = h @ hs \<and> (\<forall>c \<in> set hs. \<not> is_DocumentsCreate c)"
      by (auto simp: prepare_document_def generate_embedding_def id_or_uuid_def
            split: sum.splits prod.splits if_splits)
    then show ?thesis .
  next
    case (Inr d)
    then obtain hp1 h1 where one: "prepare_document w r hp h = (Inr d, hp1, h1)"
      by (cases "prepare_document w r hp h") auto
    with Cons.prems have rest: "prepare_documents w rs (acc @ [d]) hp1 h1 = (Inl e, hp', h')"
      by simp
    from prepare_document_effect [OF one] obtain a where
      a: "h1 = h @ a" "\<forall>c \<in> set a. \<not> is_DocumentsCreate c" by blast
    from Cons.IH [OF rest] obtain b where
      b: "h' = h1 @ b" "\<forall>c \<in> set b. \<not> is_DocumentsCreate c" by blast
    have "h' = h @ (a @ b) \<and> (\<forall>c \<in> set (a @ b). \<not> is_DocumentsCreate c)"
      using a b by auto
    then show ?thesis by blast
  qed
qed

lemma prepare_document_empty_content:
  "embedding (hp r) = Plain PNone \<Longrightarrow> \<not> truthy (content (hp r)) \<Longrightarrow>
     prepare_document w r hp h = (Inl TypeError, hp, h)"
  by (cases "content (hp r)") (simp_all add: prepare_document_def generate_embedding_def)

subsection \<open>Runs on the reference server\<close>

lemma demo_insert_short:
  "fst (TypesenseDb_insert demo_world demo_db [0, 1, 2] (demo_heap ''apple'' ''short'' ''cherry'')
          [CollectionsCreate (schema demo_db)]) =
     Inr [\<lparr>success = True, document = PStr ''a'', error = None\<rparr>,
          \<lparr>success = False, document = PStr ''b'',
           error = Some (TypesenseClientError ''RequestMalformed'')\<rparr>,
          \<lparr>success = True, document = PStr ''c'', error = None\<rparr>]"
  by (simp add: TypesenseDb_insert_def ensure_collection_def TypesenseDb_exists_def
        prepare_document_def generate_embedding_def demo_world_def demo_get_embedding_def
        demo_heap_def demo_document_def id_or_uuid_def clean_meta_data_def demo_db_fields
        doc_dict_id_def)

lemma demo_prepare_short:
  "\<exists>hp2. prepare_documents demo_world [0, 1, 2] [] (demo_heap ''apple'' ''short'' ''cherry'')
            [CollectionsCreate (schema demo_db), CollectionRetrieve ''docs''] =
          (Inr short_docs, hp2,
           [CollectionsCreate (schema demo_db), CollectionRetrieve ''docs'',
            GetEmbedding (PStr ''apple''), GetEmbedding (PStr ''short''),
            GetEmbedding (PStr ''cherry'')])"
  by (simp add: demo_run short_docs_def)

lemma demo_ensure:
  "ensure_collection demo_world demo_db [CollectionsCreate (schema demo_db)] =
     (Inr (), [CollectionsCreate (schema demo_db), CollectionRetrieve ''docs''])"
  by (simp add: demo_run)

subsection \<open>Failure isolation (C1)\<close>

text \<open>
  C1, as the code has it. Let the batch be non-empty and the collection be ensured. When
  every document of the batch is prepared without an exception, \<open>insert\<close> returns normally:
  it sends one \<open>documents.create\<close> request for each prepared document, in order, whatever
  the earlier requests answered, and \<open>results\<close> has one entry per document, with the id of
  the document, and with \<open>success\<close> true when its request returned and false, with the
  error, when its request raised. When the preparation of a document raises (the embedder
  fails, say), \<open>insert\<close> raises that exception and no document of the batch is submitted.
\<close>

theorem C1_submission_failures_are_isolated:
  assumes "documents \<noteq> []" and "ensure_collection w self h = (Inr (), h1)"
  shows "(\<forall>docs hp2 h2. prepare_documents w documents [] hp h1 = (Inr docs, hp2, h2) \<longrightarrow>
            (\<exists>results.
               TypesenseDb_insert w self documents hp h =
                 (Inr results, hp2, h2 @ map (DocumentsCreate (name self)) docs)
             \<and> length docs = length documents \<and> length results = length docs
             \<and> (\<forall>i < length docs.
                   results ! i =
                     outcome_of w (name self)
                       (h2 @ map (DocumentsCreate (name self)) (take i docs)) (docs ! i))))
       \<and> (\<forall>e hp2 h2. prepare_documents w documents [] hp h1 = (Inl e, hp2, h2) \<longrightarrow>
            TypesenseDb_insert w self documents hp h = (Inl e, hp2, h2)
          \<and> (\<exists>hs. h2 = h1 @ hs \<and> (\<forall>c \<in> set hs. \<not> is_DocumentsCreate c)))"
proof -
  have ok: "\<exists>results.
               TypesenseDb_insert w self documents hp h =
                 (Inr results, hp2, h2 @ map (DocumentsCreate (name self)) docs)
             \<and> length docs = length documents \<and> length results = length docs
             \<and> (\<forall>i < length docs.
                   results ! i =
                     outcome_of w (name self)
                       (h2 @ map (DocumentsCreate (name self)) (take i docs)) (docs ! i))"
    if prep: "prepare_documents w documents [] hp h1 = (Inr docs, hp2, h2)" for docs hp2 h2
  proof -
    from prepare_documents_effect [OF prep] have len: "length docs = length documents" by simp
    with assms(1) have ne: "docs \<noteq> []" by auto
    let ?res = "fst (insert_documents w (name self) docs [] h2)"
    obtain results h3 where sub: "insert_documents w (name self) docs [] h2 = (results, h3)"
      by (cases "insert_documents w (name self) docs [] h2")
    have h3: "h3 = h2 @ map (DocumentsCreate (name self)) docs"
      using insert_documents_history [of w "name self" docs "[]" h2] sub by simp
    have "TypesenseDb_insert w self documents hp h = (Inr results, hp2, h3)"
      using assms prep ne sub by (simp add: TypesenseDb_insert_def)
    then have run: "TypesenseDb_insert w self documents hp h =
                 (Inr ?res, hp2, h2 @ map (DocumentsCreate (name self)) docs)"
      using sub h3 by simp
    have res: "?res = map (\<lambda>i. outcome_of w (name self)
                  (h2 @ map (DocumentsCreate (name self)) (take i docs)) (docs ! i)) [0..<length docs]"
      using insert_documents_results [of w "name self" docs "[]" h2] by simp
    have "length ?res = length docs" by (simp add: res)
    moreover have "\<forall>i < length docs. ?res ! i =
                     outcome_of w (name self)
                       (h2 @ map (DocumentsCreate (name self)) (take i docs)) (docs ! i)"
      by (simp add: res)
    ultimately show ?thesis using run len by blast
  qed
  have bad: "TypesenseDb_insert w self documents hp h = (Inl e, hp2, h2)
          \<and> (\<exists>hs. h2 = h1 @ hs \<and> (\<forall>c \<in> set hs. \<not> is_DocumentsCreate c))"
    if prep: "prepare_documents w documents [] hp h1 = (Inl e, hp2, h2)" for e hp2 h2
    using assms prep prepare_documents_raises_history [OF prep]
    by (simp add: TypesenseDb_insert_def)
  from ok bad show ?thesis by blast
qed

text \<open>
  C1, as stated, fails: in a batch of three documents where the embedder fails for the
  second, \<open>insert\<close> raises the embedder's exception, and the history of requests ends with
  the failed embedding call: no document was submitted, not even the first, which was
  prepared.
\<close>

theorem C1_embedding_failure_aborts_batch:
  "fst (TypesenseDb_insert demo_world demo_db [0, 1, 2] (demo_heap ''apple'' ''bad'' ''cherry'')
          [CollectionsCreate (schema demo_db)]) = Inl (OtherException ''embedding failed'')
 \<and> snd (snd (TypesenseDb_insert demo_world demo_db [0, 1, 2]
               (demo_heap ''apple'' ''bad'' ''cherry'') [CollectionsCreate (schema demo_db)])) =
     [CollectionsCreate (schema demo_db), CollectionRetrieve ''docs'',
      GetEmbedding (PStr ''apple''), GetEmbedding (PStr ''bad'')]"
  by (simp add: TypesenseDb_insert_def ensure_collection_def TypesenseDb_exists_def
        prepare_document_def generate_embedding_def demo_world_def demo_get_embedding_def
        demo_heap_def demo_document_def id_or_uuid_def clean_meta_data_def demo_db_fields)

text \<open>
  A batch of three documents where the server rejects the second (its vector is too
  short): the first and the third are stored, and \<open>results\<close> says so.
\<close>

theorem C1_submission_failures_are_isolated_witness:
  "\<exists>results. fst (TypesenseDb_insert demo_world demo_db [0, 1, 2]
                    (demo_heap ''apple'' ''short'' ''cherry'')
                    [CollectionsCreate (schema demo_db)]) = Inr results
     \<and> length results = 3
     \<and> results ! 0 = \<lparr>success = True, document = PStr ''a'', error = None\<rparr>
     \<and> results ! 1 = \<lparr>success = False, document = PStr ''b'',
                       error = Some (TypesenseClientError ''RequestMalformed'')\<rparr>
     \<and> results ! 2 = \<lparr>success = True, document = PStr ''c'', error = None\<rparr>"
proof -
  let ?h2 = "[CollectionsCreate (schema demo_db), CollectionRetrieve ''docs'',
            GetEmbedding (PStr ''apple''), GetEmbedding (PStr ''short''),
            GetEmbedding (PStr ''cherry'')]"
  from demo_prepare_short obtain hp2 where
    prep: "prepare_documents demo_world [0, 1, 2] [] (demo_heap ''apple'' ''short'' ''cherry'')
            [CollectionsCreate (schema demo_db), CollectionRetrieve ''docs''] =
          (Inr short_docs, hp2, ?h2)"
    by blast
  have ne: "[0, 1, 2] \<noteq> ([] :: nat list)" by simp
  from C1_submission_failures_are_isolated [OF ne demo_ensure] prep
  obtain results where
    run: "TypesenseDb_insert demo_world demo_db [0, 1, 2] (demo_heap ''apple'' ''short'' ''cherry'')
            [CollectionsCreate (schema demo_db)] =
          (Inr results, hp2, ?h2 @ map (DocumentsCreate (name demo_db)) short_docs)"
    and len: "length results = length short_docs"
    and each: "\<forall>i < length short_docs.
                 results ! i = outcome_of demo_world (name demo_db)
                   (?h2 @ map (DocumentsCreate (name demo_db)) (take i short_docs)) (short_docs ! i)"
    by blast
  have l3: "length short_docs = 3" by (simp add: short_docs_def)
  have r0: "results ! 0 = \<lparr>success = True, document = PStr ''a'', error = None\<rparr>"
    using each l3 by (simp add: outcome_of_def short_docs_def demo_run)
  have r1: "results ! 1 = \<lparr>success = False, document = PStr ''b'',
                       error = Some (TypesenseClientError ''RequestMalformed'')\<rparr>"
    using each l3 by (simp add: outcome_of_def short_docs_def demo_run)
  have r2: "results ! 2 = \<lparr>success = True, document = PStr ''c'', error = None\<rparr>"
    using each l3 by (simp add: outcome_of_def short_docs_def demo_run)
  from run len l3 r0 r1 r2 show ?thesis by simp
qed

subsection \<open>Documents without content (C4)\<close>

text \<open>
  C4 says that a document without embedding whose content is empty is stored with a null
  embedding. The code skips the embedding step for it, and then evaluates
  \<open>len(embedding)\<close> for a \<open>print\<close>, with \<open>embedding\<close> being \<open>None\<close>: \<open>insert\<close> raises a
  TypeError and sends no request for the document.
\<close>

theorem C4_empty_content_raises:
  "fst (TypesenseDb_insert demo_world demo_db [0] (demo_heap [] ''banana'' ''cherry'')
          [CollectionsCreate (schema demo_db)]) = Inl TypeError
 \<and> snd (snd (TypesenseDb_insert demo_world demo_db [0] (demo_heap [] ''banana'' ''cherry'')
               [CollectionsCreate (schema demo_db)])) =
     [CollectionsCreate (schema demo_db), CollectionRetrieve ''docs'']"
  by (simp add: TypesenseDb_insert_def ensure_collection_def TypesenseDb_exists_def
        prepare_document_def generate_embedding_def demo_world_def demo_get_embedding_def
        demo_heap_def demo_document_def id_or_uuid_def clean_meta_data_def demo_db_fields)

subsection \<open>The caller's documents (C10)\<close>

text \<open>
  C10. When \<open>insert\<close> returns, every document of the batch that had no embedding and a
  non-empty content is, on the caller's heap, the same document with its embedding set
  to the vector that the embedder returned for its content during this call.
\<close>

theorem C10_insert_writes_embedding_back:
  assumes "TypesenseDb_insert w self documents hp h = (Inr results, hp', h')"
      and "r \<in> set documents"
      and "embedding (hp r) = Plain PNone" and "truthy (content (hp r))"
  shows "\<exists>g v. prefix (g @ [GetEmbedding (content (hp r))]) h'
             \<and> get_embedding w g (content (hp r)) = Inr v
             \<and> v \<noteq> Plain PNone
             \<and> hp' r = (hp r)\<lparr>embedding := v\<rparr>"
proof -
  from assms(2) have ne: "documents \<noteq> []" by auto
  from assms(1) ne obtain u h1 where
    ens: "ensure_collection w self h = (Inr u, h1)"
    by (cases "ensure_collection w self h"; cases "fst (ensure_collection w self h)")
       (auto simp: TypesenseDb_insert_def)
  from assms(1) ne ens obtain docs h2 where
    prep: "prepare_documents w documents [] hp h1 = (Inr docs, hp', h2)"
    and ext: "prefix h2 h'"
    by (cases "prepare_documents w documents [] hp h1";
        cases "fst (prepare_documents w documents [] hp h1)")
       (auto simp: TypesenseDb_insert_def insert_documents_history
             split: if_splits prod.splits
             dest!: arg_cong [where f = snd and x = "insert_documents _ _ _ _ _"])
  from prepare_documents_effect [OF prep] assms(2)
  have wr: "embeddings_written w hp h1 hp' h2" and nn: "embedding (hp' r) \<noteq> Plain PNone"
    by simp_all
  from nn assms(3) have "hp' r \<noteq> hp r" by auto
  with wr obtain g v where
    "prefix (g @ [GetEmbedding (content (hp r))]) h2" "get_embedding w g (content (hp r)) = Inr v"
    "v \<noteq> Plain PNone" "hp' r = (hp r)\<lparr>embedding := v\<rparr>"
    unfolding embeddings_written_def by blast
  moreover from this(1) ext have "prefix (g @ [GetEmbedding (content (hp r))]) h'"
    by (meson prefix_order.trans)
  ultimately show ?thesis by blast
qed

text \<open>The second document of the batch carries the vector of the embedder afterwards.\<close>

theorem C10_insert_writes_embedding_back_witness:
  "fst (snd (TypesenseDb_insert demo_world demo_db [0, 1, 2]
               (demo_heap ''apple'' ''short'' ''cherry'')
               [CollectionsCreate (schema demo_db)])) 1 =
     \<lparr>doc_id = PStr ''b'', content = PStr ''short'', meta_data = PDict [],
      embedding = Plain (PList [PFloat 1, PFloat 0])\<rparr>"
proof -
  let ?hp = "demo_heap ''apple'' ''short'' ''cherry''"
  let ?X = "TypesenseDb_insert demo_world demo_db [0, 1, 2] ?hp [CollectionsCreate (schema demo_db)]"
  obtain results where res: "fst ?X = Inr results"
    using demo_insert_short by blast
  have run: "?X = (Inr results, fst (snd ?X), snd (snd ?X))"
    using res by (metis prod.collapse)
  have doc: "?hp 1 = demo_document ''b'' ''short''" by (simp add: demo_heap_def)
  have mem: "(1::nat) \<in> set [0, 1, 2]" by simp
  have none: "embedding (?hp 1) = Plain PNone" by (simp add: demo_heap_def demo_document_def)
  have nonempty: "truthy (content (?hp 1))" by (simp add: demo_heap_def demo_document_def)
  from C10_insert_writes_embedding_back [OF run mem none nonempty]
  obtain g v where "get_embedding demo_world g (content (?hp 1)) = Inr v"
    and "fst (snd ?X) 1 = (?hp 1)\<lparr>embedding := v\<rparr>"
    by blast
  then show ?thesis
    by (simp add: demo_heap_def demo_document_def demo_world_def demo_get_embedding_def)
qed

end
